theory Spec2Isabelle
  imports Complex_Main
begin

section \<open>OverlayX: the plugin pipeline\<close>

text \<open>
  A shallow embedding of \<^verbatim>\<open>overlayx.py\<close> (class \<^verbatim>\<open>PluginManager\<close>) and of the
  plugin classes under \<^verbatim>\<open>plugins/\<close>. Python objects become records, method calls
  become functions that take the object and return the updated one, exceptions become
  values of type \<open>py_error\<close>, and \<^verbatim>\<open>print\<close> becomes a list of messages.
\<close>

subsection \<open>Python values\<close>

text \<open>
  Option mappings come from YAML or JSON, so an option can hold any of these values.
  Floats are idealised as reals.
\<close>

datatype pyval =
    PNone
  | PBool bool
  | PInt int
  | PFloat real
  | PStr string
  | PList "pyval list"
  | PTuple "pyval list"
  | PDict "(string \<times> pyval) list"

datatype py_error = TypeError | AttributeError | KeyError | ValueError | OSError

text \<open>Truth value of an object, as \<^verbatim>\<open>if x\<close> and \<^verbatim>\<open>not x\<close> compute it.\<close>

fun truthy :: "pyval \<Rightarrow> bool" where
  "truthy PNone = False"
| "truthy (PBool b) = b"
| "truthy (PInt i) = (i \<noteq> 0)"
| "truthy (PFloat r) = (r \<noteq> 0)"
| "truthy (PStr s) = (s \<noteq> [])"
| "truthy (PList xs) = (xs \<noteq> [])"
| "truthy (PTuple xs) = (xs \<noteq> [])"
| "truthy (PDict kvs) = (kvs \<noteq> [])"

text \<open>\<^verbatim>\<open>d.get(k, default)\<close> and \<^verbatim>\<open>k in d\<close> on a dict with string keys.\<close>

definition dict_get :: "(string \<times> pyval) list \<Rightarrow> string \<Rightarrow> pyval \<Rightarrow> pyval" where
  "dict_get d k dflt = (case map_of d k of None \<Rightarrow> dflt | Some v \<Rightarrow> v)"

definition dict_has :: "(string \<times> pyval) list \<Rightarrow> string \<Rightarrow> bool" where
  "dict_has d k = (map_of d k \<noteq> None)"

text \<open>\<^verbatim>\<open>x.get(k, default)\<close> on an arbitrary object: only a dict has the method.\<close>

fun py_get :: "pyval \<Rightarrow> string \<Rightarrow> pyval \<Rightarrow> py_error + pyval" where
  "py_get (PDict d) k dflt = Inr (dict_get d k dflt)"
| "py_get _ k dflt = Inl AttributeError"

text \<open>\<^verbatim>\<open>tuple(x)\<close>: defined on iterables, \<^verbatim>\<open>TypeError\<close> otherwise.\<close>

fun py_tuple :: "pyval \<Rightarrow> py_error + pyval" where
  "py_tuple (PList xs) = Inr (PTuple xs)"
| "py_tuple (PTuple xs) = Inr (PTuple xs)"
| "py_tuple (PStr s) = Inr (PTuple (map (\<lambda>c. PStr [c]) s))"
| "py_tuple (PDict d) = Inr (PTuple (map (\<lambda>kv. PStr (fst kv)) d))"
| "py_tuple _ = Inl TypeError"

text \<open>The numeric value of an object in a comparison with a float; \<^verbatim>\<open>bool\<close> is an \<^verbatim>\<open>int\<close>.\<close>

fun num_of :: "pyval \<Rightarrow> real option" where
  "num_of (PBool b) = Some (if b then 1 else 0)"
| "num_of (PInt i) = Some (real_of_int i)"
| "num_of (PFloat r) = Some r"
| "num_of _ = None"

subsection \<open>Strings\<close>

text \<open>
  \<^verbatim>\<open>str.upper\<close> and \<^verbatim>\<open>str.lower\<close> on ASCII letters; other bytes are kept.
  Decimal rendering of a counter, as an f-string does it.
\<close>

definition upper_char :: "char \<Rightarrow> char" where
  "upper_char c =
     (case map_of (zip ''abcdefghijklmnopqrstuvwxyz'' ''ABCDEFGHIJKLMNOPQRSTUVWXYZ'') c of
        None \<Rightarrow> c | Some u \<Rightarrow> u)"

definition lower_char :: "char \<Rightarrow> char" where
  "lower_char c =
     (case map_of (zip ''ABCDEFGHIJKLMNOPQRSTUVWXYZ'' ''abcdefghijklmnopqrstuvwxyz'') c of
        None \<Rightarrow> c | Some l \<Rightarrow> l)"

definition str_upper :: "string \<Rightarrow> string" where
  "str_upper s = map upper_char s"

definition str_lower :: "string \<Rightarrow> string" where
  "str_lower s = map lower_char s"

fun str_contains :: "string \<Rightarrow> string \<Rightarrow> bool" where
  "str_contains sub [] = (sub = [])"
| "str_contains sub (c # cs) = (take (length sub) (c # cs) = sub \<or> str_contains sub cs)"

definition digit_char :: "nat \<Rightarrow> char" where
  "digit_char d = ''0123456789'' ! d"

fun str_nat :: "nat \<Rightarrow> string" where
  "str_nat n = (if n < 10 then [digit_char n] else str_nat (n div 10) @ [digit_char (n mod 10)])"

declare str_nat.simps [simp del]

definition digit_val :: "char \<Rightarrow> nat" where
  "digit_val c = (case map_of (zip ''0123456789'' [0, 1, 2, 3, 4, 5, 6, 7, 8, 9]) c of
                    None \<Rightarrow> 0 | Some d \<Rightarrow> d)"

definition nat_of_str :: "string \<Rightarrow> nat" where
  "nat_of_str s = foldl (\<lambda>a c. 10 * a + digit_val c) 0 s"

subsection \<open>The world outside the program\<close>

text \<open>
  Fonts and images are opaque values. Everything read from outside the program (the file
  system, PIL, the clock, \<^verbatim>\<open>psutil\<close>, the zone database) is a field of \<open>env\<close>;
  a call that can raise returns a sum. One \<open>env\<close> is a snapshot: all reads of the clock
  during one call see the same instant.
\<close>

datatype font = TrueType pyval pyval | DefaultFont

record image =
  img_source :: pyval
  img_size :: "int \<times> int"

record env =
  path_exists :: "pyval \<Rightarrow> py_error + bool"
  image_open_rgba :: "pyval \<Rightarrow> py_error + image"
  apply_resize :: "pyval \<Rightarrow> pyval \<Rightarrow> int \<times> int \<Rightarrow> image \<Rightarrow> py_error + image"
  load_font :: "string \<Rightarrow> (string \<times> pyval) list \<Rightarrow> pyval \<Rightarrow> py_error + font"
  time_now :: real
  cpu_percent :: real
  local_utcoffset :: real
  zoneinfo :: "string \<Rightarrow> py_error + real"
  file_stat :: "string \<Rightarrow> py_error + int \<times> real"
  read_lines :: "string \<Rightarrow> py_error + string list"

text \<open>
  \<open>path_exists\<close> is \<^verbatim>\<open>os.path.exists\<close>; \<open>image_open_rgba\<close> is
  \<^verbatim>\<open>Image.open(file).convert('RGBA')\<close>; \<open>apply_resize fit resize (width, height)\<close>
  is \<^verbatim>\<open>OverlayPlugin._apply_resize\<close> (pixel resampling);
  \<open>load_font name config font_size\<close> is the \<^verbatim>\<open>_load_font\<close> method of the plugin
  class \<open>name\<close>; \<open>zoneinfo key\<close> is \<^verbatim>\<open>zoneinfo.ZoneInfo(key)\<close>, returning the
  zone's offset from UTC at the instant \<open>time_now\<close>, or \<^verbatim>\<open>KeyError\<close> for a key
  that is not in the database; \<open>file_stat\<close> is \<^verbatim>\<open>os.stat\<close>, giving
  \<^verbatim>\<open>(st_size, st_mtime)\<close>; \<open>read_lines\<close> is \<^verbatim>\<open>open(path, 'r', ...)\<close> followed
  by \<^verbatim>\<open>readlines()\<close>.
\<close>

subsection \<open>Messages printed\<close>

datatype log_msg =
    PluginRegistered string string
  | UnknownPluginType string
  | InitError string string py_error
  | LegacyInitError string py_error
  | OverlayFileNotFound pyval
  | TlpLevelNotRecognized pyval
  | TimezoneNotRecognized string

subsection \<open>Frames\<close>

text \<open>
  A frame is its size and the drawing operations applied to the captured picture, in order:
  the drawing block of a plugin (the PIL calls after its visibility test, with the
  coordinates they compute) is one operation that carries the fields it draws from.
  Two frames that are equal here are equal pixel buffers. A datetime is its wall-clock
  reading (seconds) and the zone attached to it, if any; a zone carries its offset from UTC.
\<close>

datatype tzinfo = TzUTC | TzLocal real | TzZone string real

fun utcoffset :: "tzinfo \<Rightarrow> real" where
  "utcoffset TzUTC = 0"
| "utcoffset (TzLocal off) = off"
| "utcoffset (TzZone key off) = off"

record datetime =
  wall_clock :: real
  dt_tzinfo :: "tzinfo option"

text \<open>
  A line shown by the tail plugin: a line of the file, or one of the two placeholders
  (file not found, read error).
\<close>

datatype tail_line = TextLine string | FileNotFoundLine string | ReadErrorLine py_error

datatype draw_op =
    Fit "int \<times> int"
  | ClockText pyval datetime pyval "font option"
  | CpuText pyval string "font option"
  | Paste image pyval "real option"
  | TlpBadge pyval string pyval "font option"
  | TailBox "tail_line list"

record frame =
  frame_size :: "int \<times> int"
  frame_ops :: "draw_op list"

definition draw :: "draw_op \<Rightarrow> frame \<Rightarrow> frame" where
  "draw op f = f\<lparr>frame_ops := frame_ops f @ [op]\<rparr>"

text \<open>\<^verbatim>\<open>ImageOps.fit(frame, size)\<close>: a new picture of exactly that size.\<close>

definition ImageOps_fit :: "frame \<Rightarrow> int \<times> int \<Rightarrow> frame" where
  "ImageOps_fit f sz = \<lparr>frame_size = sz, frame_ops = frame_ops f @ [Fit sz]\<rparr>"

subsection \<open>Configuration\<close>

text \<open>
  A plugin descriptor as \<^verbatim>\<open>AppConfig._parse_plugin_instances\<close> produces it, and the
  fields of \<^verbatim>\<open>AppConfig\<close> that the manager and the plugins read. \<open>extra_attrs\<close> holds
  attributes set on the object beyond the dataclass fields (what \<^verbatim>\<open>hasattr\<close> finds).
\<close>

record descriptor =
  d_type :: string
  d_id :: string
  d_enabled :: bool
  d_config :: "(string \<times> pyval) list"

record app_config =
  width :: int
  height :: int
  plugin_instances :: "descriptor list"
  plugins_legacy :: pyval
  extra_attrs :: "(string \<times> pyval) list"

subsection \<open>Plugin objects\<close>

record clock_state =
  clock_format_str :: pyval
  clock_font :: "font option"
  clock_position :: pyval
  clock_font_size :: pyval
  clock_show :: pyval
  clock_timezone :: pyval

record cpu_state =
  cpu_usage :: string
  cpu_last_check :: real
  cpu_update_interval :: pyval
  cpu_show :: pyval
  cpu_font :: "font option"
  cpu_position :: pyval
  cpu_font_size :: pyval

record overlay_state =
  overlay_image :: "image option"
  overlay_file :: pyval
  overlay_opacity :: pyval
  overlay_position :: pyval
  overlay_fit :: pyval
  overlay_resize :: pyval

record crop_state =
  crop_target_size :: "int \<times> int"

record tlp_state =
  tlp_level :: string
  tlp_font :: "font option"
  tlp_position :: pyval
  tlp_font_size :: pyval
  tlp_show :: pyval
  tlp_padding :: pyval

datatype plugin_state =
    Clock clock_state
  | Cpu cpu_state
  | Overlay overlay_state
  | Crop crop_state
  | Tlp tlp_state

text \<open>
  The fields of the base class \<^verbatim>\<open>Plugin\<close> and, in \<open>state\<close>, those of the subclass.
  The overlay plugin's \<^verbatim>\<open>self.enabled\<close> is the base-class field.
\<close>

record plugin =
  name :: string
  config :: "(string \<times> pyval) list"
  enabled :: pyval
  shortcuts :: pyval
  state :: plugin_state

text \<open>
  \<^verbatim>\<open>Plugin.__init__(name, config)\<close>. A truthy \<open>config\<close> that is not a dict has no
  \<^verbatim>\<open>get\<close>, so the constructor raises.
\<close>

definition Plugin_init :: "string \<Rightarrow> pyval \<Rightarrow> plugin_state \<Rightarrow> py_error + plugin" where
  "Plugin_init nm cfg st =
     (if truthy cfg then
        (case cfg of
           PDict d \<Rightarrow> Inr \<lparr>name = nm, config = d,
                          enabled = dict_get d ''show_by_default'' (PBool True),
                          shortcuts = dict_get d ''shortcuts'' (PDict []),
                          state = st\<rparr>
         | _ \<Rightarrow> Inl AttributeError)
      else Inr \<lparr>name = nm, config = [], enabled = PBool True, shortcuts = PDict [], state = st\<rparr>)"

definition TLP_RED :: string where "TLP_RED = ''RED''"
definition TLP_AMBER :: string where "TLP_AMBER = ''AMBER''"
definition TLP_GREEN :: string where "TLP_GREEN = ''GREEN''"
definition TLP_CLEAR :: string where "TLP_CLEAR = ''CLEAR''"

definition TLP_SHORTCUTS :: "(string \<times> pyval) list" where
  "TLP_SHORTCUTS = [(''red'', PStr ''r''), (''amber'', PStr ''a''), (''green'', PStr ''g''), (''clear'', PStr ''l'')]"

definition ClockPlugin_new :: "pyval \<Rightarrow> py_error + plugin" where
  "ClockPlugin_new cfg = Plugin_init ''clock'' cfg
     (Clock \<lparr>clock_format_str = PStr ''%H:%M:%S'', clock_font = None,
             clock_position = PTuple [PInt 1080, PInt 20], clock_font_size = PInt 35,
             clock_show = PBool True, clock_timezone = PNone\<rparr>)"

definition CPUPlugin_new :: "pyval \<Rightarrow> py_error + plugin" where
  "CPUPlugin_new cfg = Plugin_init ''cpu'' cfg
     (Cpu \<lparr>cpu_usage = ''CPU: 0%'', cpu_last_check = 0, cpu_update_interval = PFloat 2,
           cpu_show = PBool True, cpu_font = None,
           cpu_position = PTuple [PInt 40, PInt 35], cpu_font_size = PInt 18\<rparr>)"

definition OverlayPlugin_new :: "pyval \<Rightarrow> py_error + plugin" where
  "OverlayPlugin_new cfg =
     (case Plugin_init ''overlay'' cfg
        (Overlay \<lparr>overlay_image = None, overlay_file = PStr ''moldura.png'',
                  overlay_opacity = PFloat 1, overlay_position = PTuple [PInt 0, PInt 0],
                  overlay_fit = PBool False, overlay_resize = PFloat 1\<rparr>) of
        Inl e \<Rightarrow> Inl e
      | Inr p \<Rightarrow> Inr (p\<lparr>enabled := PBool True\<rparr>))"

definition CropPlugin_new :: "pyval \<Rightarrow> py_error + plugin" where
  "CropPlugin_new cfg = Plugin_init ''crop'' cfg (Crop \<lparr>crop_target_size = (1280, 720)\<rparr>)"

definition TLPPlugin_new :: "pyval \<Rightarrow> py_error + plugin" where
  "TLPPlugin_new cfg = Plugin_init ''tlp'' cfg
     (Tlp \<lparr>tlp_level = TLP_CLEAR, tlp_font = None, tlp_position = PTuple [PInt 20, PInt 20],
           tlp_font_size = PInt 18, tlp_show = PBool True, tlp_padding = PInt 8\<rparr>)"

subsection \<open>\<^verbatim>\<open>initialize\<close> of each plugin class\<close>

text \<open>
  Each \<^verbatim>\<open>initialize\<close> returns what it printed, the object as the call leaves it, and
  the exception it raised, if any: the fields assigned before a \<^verbatim>\<open>raise\<close> stay assigned.
  \<open>dict_get d k PNone\<close> under a test \<open>dict_has d k\<close> is \<^verbatim>\<open>d[k]\<close>.
\<close>

type_synonym init_result = "log_msg list \<times> plugin \<times> py_error option"

definition ClockPlugin_initialize ::
  "env \<Rightarrow> app_config \<Rightarrow> plugin \<Rightarrow> clock_state \<Rightarrow> init_result" where
  "ClockPlugin_initialize ev app p c =
     (let cfg = config p; attrs = extra_attrs app;
          c1 = c\<lparr>clock_format_str := dict_get cfg ''format'' (clock_format_str c),
                 clock_timezone := dict_get cfg ''timezone'' PNone\<rparr>
      in case (if dict_has cfg ''position'' then py_tuple (dict_get cfg ''position'' PNone)
               else if dict_has attrs ''clock_position'' then Inr (dict_get attrs ''clock_position'' PNone)
               else Inr (clock_position c1)) of
           Inl e \<Rightarrow> ([], p\<lparr>state := Clock c1\<rparr>, Some e)
         | Inr pos \<Rightarrow>
            (let font_size =
                   (if dict_has cfg ''font_size'' then dict_get cfg ''font_size'' PNone
                    else if dict_has attrs ''clock_font_size'' then dict_get attrs ''clock_font_size'' PNone
                    else clock_font_size c1);
                 sh =
                   (if dict_has cfg ''show'' then dict_get cfg ''show'' PNone
                    else if dict_has cfg ''show_by_default'' then dict_get cfg ''show_by_default'' PNone
                    else if dict_has attrs ''show_clock'' then dict_get attrs ''show_clock'' PNone
                    else PBool True);
                 c2 = c1\<lparr>clock_position := pos, clock_font_size := font_size, clock_show := sh\<rparr>
             in case load_font ev ''clock'' cfg font_size of
                  Inl e \<Rightarrow> ([], p\<lparr>state := Clock c2\<rparr>, Some e)
                | Inr fnt \<Rightarrow> ([], p\<lparr>state := Clock (c2\<lparr>clock_font := Some fnt\<rparr>)\<rparr>, None)))"

text \<open>The field \<^verbatim>\<open>show_system\<close> of the CPU plugin is written here and read nowhere; it is left out.\<close>

definition CPUPlugin_initialize ::
  "env \<Rightarrow> app_config \<Rightarrow> plugin \<Rightarrow> cpu_state \<Rightarrow> init_result" where
  "CPUPlugin_initialize ev app p c =
     (let cfg = config p; attrs = extra_attrs app;
          c1 = c\<lparr>cpu_update_interval := dict_get cfg ''update_interval'' (PFloat 2)\<rparr>
      in case (if dict_has cfg ''position'' then py_tuple (dict_get cfg ''position'' PNone)
               else if dict_has attrs ''cpu_position'' then Inr (dict_get attrs ''cpu_position'' PNone)
               else Inr (cpu_position c1)) of
           Inl e \<Rightarrow> ([], p\<lparr>state := Cpu c1\<rparr>, Some e)
         | Inr pos \<Rightarrow>
            (let font_size =
                   (if dict_has cfg ''font_size'' then dict_get cfg ''font_size'' PNone
                    else if dict_has attrs ''info_font_size'' then dict_get attrs ''info_font_size'' PNone
                    else cpu_font_size c1);
                 sh =
                   (if dict_has cfg ''show'' then dict_get cfg ''show'' PNone
                    else if dict_has cfg ''show_by_default'' then dict_get cfg ''show_by_default'' PNone
                    else if dict_has attrs ''show_cpu'' then dict_get attrs ''show_cpu'' PNone
                    else PBool True);
                 c2 = c1\<lparr>cpu_position := pos, cpu_font_size := font_size, cpu_show := sh\<rparr>
             in case load_font ev ''cpu'' cfg font_size of
                  Inl e \<Rightarrow> ([], p\<lparr>state := Cpu c2\<rparr>, Some e)
                | Inr fnt \<Rightarrow> ([], p\<lparr>state := Cpu (c2\<lparr>cpu_font := Some fnt\<rparr>)\<rparr>, None)))"

text \<open>
  The overlay plugin: a file that does not exist leaves \<^verbatim>\<open>overlay_image\<close> as it was and
  prints a warning.
\<close>

definition OverlayPlugin_initialize ::
  "env \<Rightarrow> app_config \<Rightarrow> plugin \<Rightarrow> overlay_state \<Rightarrow> init_result" where
  "OverlayPlugin_initialize ev app p c =
     (let cfg = config p; attrs = extra_attrs app;
          file = dict_get cfg ''file'' (PStr ''moldura.png'');
          en = (if dict_has cfg ''enabled'' then dict_get cfg ''enabled'' PNone
                else if dict_has cfg ''show_by_default'' then dict_get cfg ''show_by_default'' PNone
                else if dict_has attrs ''overlay_enabled'' then dict_get attrs ''overlay_enabled'' PNone
                else PBool True);
          opacity = dict_get cfg ''opacity'' (PFloat 1);
          pos = dict_get cfg ''position'' (PList [PInt 0, PInt 0]);
          position = (case pos of PList xs \<Rightarrow> PTuple xs | _ \<Rightarrow> pos);
          ft = dict_get cfg ''fit'' (PBool False);
          rs = dict_get cfg ''resize'' (PFloat 1);
          c1 = c\<lparr>overlay_file := file, overlay_opacity := opacity, overlay_position := position,
                 overlay_fit := ft, overlay_resize := rs\<rparr>;
          p1 = p\<lparr>enabled := en, state := Overlay c1\<rparr>
      in case path_exists ev file of
           Inl e \<Rightarrow> ([], p1, Some e)
         | Inr False \<Rightarrow> ([OverlayFileNotFound file], p1, None)
         | Inr True \<Rightarrow>
            (case image_open_rgba ev file of
               Inl e \<Rightarrow> ([], p1, Some e)
             | Inr img \<Rightarrow>
                (case apply_resize ev ft rs (width app, height app) img of
                   Inl e \<Rightarrow> ([], p1\<lparr>state := Overlay (c1\<lparr>overlay_image := Some img\<rparr>)\<rparr>, Some e)
                 | Inr img' \<Rightarrow>
                    ([], p1\<lparr>state := Overlay (c1\<lparr>overlay_image := Some img'\<rparr>)\<rparr>, None))))"

definition CropPlugin_initialize ::
  "env \<Rightarrow> app_config \<Rightarrow> plugin \<Rightarrow> crop_state \<Rightarrow> init_result" where
  "CropPlugin_initialize ev app p c =
     ([], p\<lparr>state := Crop (c\<lparr>crop_target_size := (width app, height app)\<rparr>)\<rparr>, None)"

text \<open>\<^verbatim>\<open>TLPPlugin._validate_tlp_level\<close>: the level to use, and the warning if one is printed.\<close>

definition TLPPlugin_validate_tlp_level :: "pyval \<Rightarrow> log_msg list \<times> string" where
  "TLPPlugin_validate_tlp_level level =
     (let level_upper = (case level of PStr s \<Rightarrow> str_upper s | _ \<Rightarrow> TLP_CLEAR);
          valid_levels = [TLP_RED, TLP_AMBER, TLP_GREEN, TLP_CLEAR]
      in if level_upper \<in> set valid_levels then ([], level_upper)
         else ([TlpLevelNotRecognized level], TLP_CLEAR))"

definition TLPPlugin_initialize ::
  "env \<Rightarrow> app_config \<Rightarrow> plugin \<Rightarrow> tlp_state \<Rightarrow> init_result" where
  "TLPPlugin_initialize ev app p c =
     (let cfg = config p; attrs = extra_attrs app;
          default_tlp = dict_get cfg ''default_tlp'' (PStr TLP_CLEAR);
          (lg, level) = TLPPlugin_validate_tlp_level default_tlp;
          c1 = c\<lparr>tlp_level := level\<rparr>
      in case (if dict_has cfg ''position'' then py_tuple (dict_get cfg ''position'' PNone)
               else Inr (tlp_position c1)) of
           Inl e \<Rightarrow> (lg, p\<lparr>state := Tlp c1\<rparr>, Some e)
         | Inr pos \<Rightarrow>
            (let font_size = (if dict_has cfg ''font_size'' then dict_get cfg ''font_size'' PNone
                              else tlp_font_size c1);
                 padding = dict_get cfg ''padding'' (PInt 8);
                 sh =
                   (if dict_has cfg ''show'' then dict_get cfg ''show'' PNone
                    else if dict_has cfg ''show_by_default'' then dict_get cfg ''show_by_default'' PNone
                    else if dict_has attrs ''show_tlp'' then dict_get attrs ''show_tlp'' PNone
                    else PBool True);
                 c2 = c1\<lparr>tlp_position := pos, tlp_font_size := font_size, tlp_padding := padding,
                         tlp_show := sh\<rparr>
             in case load_font ev ''tlp'' cfg font_size of
                  Inl e \<Rightarrow> (lg, p\<lparr>state := Tlp c2\<rparr>, Some e)
                | Inr fnt \<Rightarrow>
                   (lg, p\<lparr>shortcuts := (if \<not> truthy (shortcuts p) then PDict TLP_SHORTCUTS
                                          else shortcuts p),
                           state := Tlp (c2\<lparr>tlp_font := Some fnt\<rparr>)\<rparr>, None)))"

text \<open>\<^verbatim>\<open>plugin.initialize(app_config)\<close>, dispatched on the object's class.\<close>

definition plugin_initialize :: "env \<Rightarrow> app_config \<Rightarrow> plugin \<Rightarrow> init_result" where
  "plugin_initialize ev app p =
     (case state p of
        Clock c \<Rightarrow> ClockPlugin_initialize ev app p c
      | Cpu c \<Rightarrow> CPUPlugin_initialize ev app p c
      | Overlay c \<Rightarrow> OverlayPlugin_initialize ev app p c
      | Crop c \<Rightarrow> CropPlugin_initialize ev app p c
      | Tlp c \<Rightarrow> TLPPlugin_initialize ev app p c)"

text \<open>
  \<^verbatim>\<open>TLPPlugin.set_tlp_level\<close>: what is printed, the object afterwards and the value
  returned.
\<close>

definition TLPPlugin_set_tlp_level :: "tlp_state \<Rightarrow> pyval \<Rightarrow> log_msg list \<times> tlp_state \<times> bool" where
  "TLPPlugin_set_tlp_level c level =
     (let (lg, new_level) = TLPPlugin_validate_tlp_level level
      in if new_level \<noteq> tlp_level c then (lg, c\<lparr>tlp_level := new_level\<rparr>, True)
         else (lg, c, False))"

subsection \<open>The plugin manager\<close>

text \<open>
  \<^verbatim>\<open>PluginManager.PLUGIN_CLASSES\<close>, the classes that \<^verbatim>\<open>overlayx.py\<close> imports, and
  \<^verbatim>\<open>__all__\<close> of the package \<^verbatim>\<open>plugins\<close>.
\<close>

datatype plugin_class = ClockPlugin | CPUPlugin | OverlayPlugin | CropPlugin | TLPPlugin

definition PLUGIN_CLASSES :: "(string \<times> plugin_class) list" where
  "PLUGIN_CLASSES = [(''clock'', ClockPlugin), (''cpu'', CPUPlugin), (''overlay'', OverlayPlugin),
                     (''crop'', CropPlugin), (''tlp'', TLPPlugin)]"

fun class_name :: "plugin_class \<Rightarrow> string" where
  "class_name ClockPlugin = ''ClockPlugin''"
| "class_name CPUPlugin = ''CPUPlugin''"
| "class_name OverlayPlugin = ''OverlayPlugin''"
| "class_name CropPlugin = ''CropPlugin''"
| "class_name TLPPlugin = ''TLPPlugin''"

definition plugins_all :: "string list" where
  "plugins_all = [''Plugin'', ''ClockPlugin'', ''CPUPlugin'', ''OverlayPlugin'', ''CropPlugin'',
                  ''TLPPlugin'', ''TailPlugin'']"

fun new_plugin :: "plugin_class \<Rightarrow> pyval \<Rightarrow> py_error + plugin" where
  "new_plugin ClockPlugin cfg = ClockPlugin_new cfg"
| "new_plugin CPUPlugin cfg = CPUPlugin_new cfg"
| "new_plugin OverlayPlugin cfg = OverlayPlugin_new cfg"
| "new_plugin CropPlugin cfg = CropPlugin_new cfg"
| "new_plugin TLPPlugin cfg = TLPPlugin_new cfg"

text \<open>
  \<^verbatim>\<open>self.plugins\<close> is an insertion-ordered dict: a list of pairs with distinct keys, in
  registration order.
\<close>

type_synonym registry = "(string \<times> plugin) list"

text \<open>The candidate id \<^verbatim>\<open>f"{original_id}_{counter}"\<close>.\<close>

definition suffixed :: "string \<Rightarrow> nat \<Rightarrow> string" where
  "suffixed original_id counter = original_id @ ''_'' @ str_nat counter"

lemma digit_val_digit_char: "d < 10 \<Longrightarrow> digit_val (digit_char d) = d"
proof -
  assume "d < 10"
  then consider "d = 0" | "d = 1" | "d = 2" | "d = 3" | "d = 4" | "d = 5" | "d = 6" | "d = 7"
    | "d = 8" | "d = 9" by atomize_elim arith
  then show ?thesis
    by cases (simp_all add: digit_val_def digit_char_def)
qed

lemma nat_of_str_snoc: "nat_of_str (s @ [c]) = 10 * nat_of_str s + digit_val c"
  by (simp add: nat_of_str_def)

lemma nat_of_str_str_nat: "nat_of_str (str_nat n) = n"
proof (induction n rule: str_nat.induct)
  case (1 n)
  show ?case
  proof (cases "n < 10")
    case True
    then show ?thesis
      by (subst str_nat.simps) (simp add: nat_of_str_def digit_val_digit_char)
  next
    case False
    with 1 have "nat_of_str (str_nat (n div 10)) = n div 10" by simp
    with False show ?thesis
      by (subst str_nat.simps) (simp add: nat_of_str_snoc digit_val_digit_char)
  qed
qed

lemma inj_str_nat: "inj str_nat"
  by (rule inj_on_inverseI [where g = nat_of_str]) (rule nat_of_str_str_nat)

lemma inj_suffixed: "inj (suffixed original_id)"
  by (auto simp: inj_def suffixed_def dest: injD [OF inj_str_nat])

lemma finite_suffixed_in: "finite {n. c \<le> n \<and> suffixed original_id n \<in> set keys}"
proof -
  have "finite (suffixed original_id -` set keys)"
    by (rule finite_vimageI [OF _ inj_suffixed]) simp
  then show ?thesis
    by (rule rev_finite_subset) auto
qed

text \<open>
  The loop of \<^verbatim>\<open>register_plugin\<close>:
  \<^verbatim>\<open>while instance_id in self.plugins: instance_id = f"{original_id}_{counter}"; counter += 1\<close>.
  It ends because the candidates are pairwise different and the dict is finite.
\<close>

function unique_id :: "string list \<Rightarrow> string \<Rightarrow> string \<Rightarrow> nat \<Rightarrow> string" where
  "unique_id keys original_id instance_id counter =
     (if instance_id \<in> set keys
      then unique_id keys original_id (suffixed original_id counter) (counter + 1)
      else instance_id)"
  by pat_completeness auto
termination
proof (relation "measure (\<lambda>(keys, original_id, instance_id, counter).
         2 * card {n. counter \<le> n \<and> suffixed original_id n \<in> set keys}
         + (if instance_id \<in> set keys then 1 else 0))", goal_cases)
  case 1
  show ?case by simp
next
  case (2 keys original_id instance_id counter)
  let ?A = "\<lambda>c. {n. c \<le> n \<and> suffixed original_id n \<in> set keys}"
  have split: "?A counter = (if suffixed original_id counter \<in> set keys
                             then insert counter (?A (counter + 1)) else ?A (counter + 1))"
    by (auto simp: le_Suc_eq Suc_le_eq dest: le_neq_implies_less)
  have fin: "finite (?A (counter + 1))" by (rule finite_suffixed_in)
  have notin: "counter \<notin> ?A (counter + 1)" by simp
  show ?case
  proof (cases "suffixed original_id counter \<in> set keys")
    case True
    then have "?A counter = insert counter (?A (counter + 1))"
      using split by (simp only: if_True)
    then have "card (?A counter) = card (insert counter (?A (counter + 1)))"
      by (rule arg_cong)
    also have "\<dots> = Suc (card (?A (counter + 1)))"
      using fin notin by (rule card_insert_disjoint)
    finally show ?thesis using 2 True by simp
  next
    case False
    then have "?A counter = ?A (counter + 1)" using split by (simp only: if_False)
    then have "card (?A counter) = card (?A (counter + 1))" by (rule arg_cong)
    with 2 False show ?thesis by simp
  qed
qed

declare unique_id.simps [simp del]

text \<open>
  \<^verbatim>\<open>PluginManager.register_plugin\<close>: the key found is not in the dict, so the
  assignment adds an entry at the end.
\<close>

definition PluginManager_register_plugin ::
  "registry \<Rightarrow> plugin \<Rightarrow> string option \<Rightarrow> log_msg list \<times> registry" where
  "PluginManager_register_plugin plugins p instance_id =
     (let original_id = (case instance_id of None \<Rightarrow> name p | Some i \<Rightarrow> i);
          k = unique_id (map fst plugins) original_id original_id 1
      in ([PluginRegistered (name p) k], plugins @ [(k, p)]))"

text \<open>
  The loop of \<^verbatim>\<open>PluginManager.initialize_plugins\<close> over the descriptors. The result is
  what was printed, \<^verbatim>\<open>self.plugins\<close> afterwards, and the value returned or the exception
  raised. Only the constructor is outside the \<^verbatim>\<open>try\<close>.
\<close>

fun initialize_instances ::
  "env \<Rightarrow> app_config \<Rightarrow> descriptor list \<Rightarrow> registry \<Rightarrow> log_msg list \<times> registry \<times> (py_error + bool)" where
  "initialize_instances ev app [] plugins = ([], plugins, Inr True)"
| "initialize_instances ev app (instance_config # rest) plugins =
     (case map_of PLUGIN_CLASSES (d_type instance_config) of
        None \<Rightarrow>
          (case initialize_instances ev app rest plugins of
             (lg, plugins', r) \<Rightarrow> (UnknownPluginType (d_type instance_config) # lg, plugins', r))
      | Some plugin_class \<Rightarrow>
          (case new_plugin plugin_class (PDict (d_config instance_config)) of
             Inl e \<Rightarrow> ([], plugins, Inl e)
           | Inr p0 \<Rightarrow>
              (case plugin_initialize ev app (p0\<lparr>enabled := PBool (d_enabled instance_config)\<rparr>) of
                 (lg1, p, Some e) \<Rightarrow>
                   (lg1 @ [InitError (d_type instance_config) (d_id instance_config) e], plugins, Inr False)
               | (lg1, p, None) \<Rightarrow>
                   (case PluginManager_register_plugin plugins p (Some (d_id instance_config)) of
                      (lg2, plugins2) \<Rightarrow>
                        (case initialize_instances ev app rest plugins2 of
                           (lg3, plugins3, r) \<Rightarrow> (lg1 @ lg2 @ lg3, plugins3, r))))))"

text \<open>
  The loop of \<^verbatim>\<open>_initialize_legacy_plugins\<close> over \<^verbatim>\<open>self.plugins.items()\<close>: an
  exception is printed and the loop goes on.
\<close>

fun initialize_registered :: "env \<Rightarrow> app_config \<Rightarrow> registry \<Rightarrow> log_msg list \<times> registry" where
  "initialize_registered ev app [] = ([], [])"
| "initialize_registered ev app ((nm, p) # rest) =
     (case plugin_initialize ev app p of
        (lg1, p', err) \<Rightarrow>
          (case initialize_registered ev app rest of
             (lg2, rest') \<Rightarrow>
               (lg1 @ (case err of None \<Rightarrow> [] | Some e \<Rightarrow> [LegacyInitError nm e]) @ lg2,
                (nm, p') # rest')))"

definition PluginManager_initialize_legacy_plugins ::
  "env \<Rightarrow> app_config \<Rightarrow> registry \<Rightarrow> log_msg list \<times> registry \<times> py_error option" where
  "PluginManager_initialize_legacy_plugins ev app plugins =
     (case py_get (plugins_legacy app) ''config'' (PDict []) of
        Inl e \<Rightarrow> ([], plugins, Some e)
      | Inr plugin_configs \<Rightarrow>
     (case py_get plugin_configs ''frame'' (PDict []) of
        Inl e \<Rightarrow> ([], plugins, Some e)
      | Inr frame_config \<Rightarrow>
     (case (if truthy frame_config then Inr frame_config
            else py_get plugin_configs ''overlay'' (PDict [])) of
        Inl e \<Rightarrow> ([], plugins, Some e)
      | Inr overlay_config \<Rightarrow>
     (case py_get plugin_configs ''clock'' (PDict []) of
        Inl e \<Rightarrow> ([], plugins, Some e)
      | Inr clock_config \<Rightarrow>
     (case ClockPlugin_new clock_config of
        Inl e \<Rightarrow> ([], plugins, Some e)
      | Inr clock \<Rightarrow>
     (case PluginManager_register_plugin plugins clock None of (lg1, plugins1) \<Rightarrow>
     (case py_get plugin_configs ''cpu'' (PDict []) of
        Inl e \<Rightarrow> (lg1, plugins1, Some e)
      | Inr cpu_config \<Rightarrow>
     (case CPUPlugin_new cpu_config of
        Inl e \<Rightarrow> (lg1, plugins1, Some e)
      | Inr cpu \<Rightarrow>
     (case PluginManager_register_plugin plugins1 cpu None of (lg2, plugins2) \<Rightarrow>
     (case OverlayPlugin_new overlay_config of
        Inl e \<Rightarrow> (lg1 @ lg2, plugins2, Some e)
      | Inr overlay \<Rightarrow>
     (case PluginManager_register_plugin plugins2 overlay None of (lg3, plugins3) \<Rightarrow>
     (case initialize_registered ev app plugins3 of (lg4, plugins4) \<Rightarrow>
        (lg1 @ lg2 @ lg3 @ lg4, plugins4, None)))))))))))))"

text \<open>\<^verbatim>\<open>PluginManager.initialize_plugins\<close>.\<close>

definition PluginManager_initialize_plugins ::
  "env \<Rightarrow> app_config \<Rightarrow> registry \<Rightarrow> log_msg list \<times> registry \<times> (py_error + bool)" where
  "PluginManager_initialize_plugins ev app plugins =
     (if plugin_instances app = [] then
        (case PluginManager_initialize_legacy_plugins ev app plugins of
           (lg, plugins', Some e) \<Rightarrow> (lg, plugins', Inl e)
         | (lg, plugins', None) \<Rightarrow> (lg, plugins', Inr True))
      else initialize_instances ev app (plugin_instances app) plugins)"

subsection \<open>\<^verbatim>\<open>process_frame\<close> of each plugin class\<close>

text \<open>\<^verbatim>\<open>datetime.now(tz)\<close>; without a zone it is the naive local time.\<close>

definition datetime_now :: "env \<Rightarrow> tzinfo option \<Rightarrow> datetime" where
  "datetime_now ev tz =
     (case tz of
        None \<Rightarrow> \<lparr>wall_clock = time_now ev + local_utcoffset ev, dt_tzinfo = None\<rparr>
      | Some z \<Rightarrow> \<lparr>wall_clock = time_now ev + utcoffset z, dt_tzinfo = Some z\<rparr>)"

text \<open>\<^verbatim>\<open>sub in x\<close> for a string \<open>sub\<close>.\<close>

fun py_str_in :: "string \<Rightarrow> pyval \<Rightarrow> py_error + bool" where
  "py_str_in sub (PStr s) = Inr (str_contains sub s)"
| "py_str_in sub (PList xs) = Inr (PStr sub \<in> set xs)"
| "py_str_in sub (PTuple xs) = Inr (PStr sub \<in> set xs)"
| "py_str_in sub (PDict d) = Inr (dict_has d sub)"
| "py_str_in sub _ = Inl TypeError"

text \<open>
  \<^verbatim>\<open>ClockPlugin._get_current_time\<close>: what is printed, and the datetime returned or the
  exception raised.
\<close>

definition ClockPlugin_get_current_time ::
  "env \<Rightarrow> clock_state \<Rightarrow> log_msg list \<times> (py_error + datetime)" where
  "ClockPlugin_get_current_time ev c =
     (case py_str_in ''%z'' (clock_format_str c) of
        Inl e \<Rightarrow> ([], Inl e)
      | Inr has_z \<Rightarrow>
     (case (if has_z then Inr True else py_str_in ''%Z'' (clock_format_str c)) of
        Inl e \<Rightarrow> ([], Inl e)
      | Inr needs_tz \<Rightarrow>
     (case clock_timezone c of
        PNone \<Rightarrow>
          (if needs_tz then ([], Inr (datetime_now ev (Some (TzLocal (local_utcoffset ev)))))
           else ([], Inr (datetime_now ev None)))
      | PStr tzname \<Rightarrow>
          (if str_lower tzname = ''local''
           then ([], Inr (datetime_now ev (Some (TzLocal (local_utcoffset ev)))))
           else if \<not> needs_tz then ([], Inr (datetime_now ev None))
           else if str_upper tzname = ''UTC'' then ([], Inr (datetime_now ev (Some TzUTC)))
           else (case zoneinfo ev tzname of
                   Inr off \<Rightarrow> ([], Inr (datetime_now ev (Some (TzZone tzname off))))
                 | Inl KeyError \<Rightarrow> ([TimezoneNotRecognized tzname], Inr (datetime_now ev None))
                 | Inl e \<Rightarrow> ([], Inl e)))
      | _ \<Rightarrow> ([], Inl AttributeError))))"

text \<open>
  Each \<^verbatim>\<open>process_frame\<close> returns the exception raised, or the object and the frame
  afterwards. What \<^verbatim>\<open>_get_current_time\<close> prints is not carried along the pipeline.
\<close>

definition ClockPlugin_process_frame ::
  "env \<Rightarrow> plugin \<Rightarrow> clock_state \<Rightarrow> frame \<Rightarrow> py_error + plugin \<times> frame" where
  "ClockPlugin_process_frame ev p c f =
     (if \<not> truthy (clock_show c) then Inr (p, f)
      else case snd (ClockPlugin_get_current_time ev c) of
             Inl e \<Rightarrow> Inl e
           | Inr now \<Rightarrow>
               Inr (p, draw (ClockText (clock_position c) now (clock_format_str c) (clock_font c)) f))"

text \<open>\<^verbatim>\<open>int(x)\<close> of a float truncates towards zero; \<^verbatim>\<open>str\<close> of an integer.\<close>

definition py_int :: "real \<Rightarrow> int" where
  "py_int r = (if 0 \<le> r then \<lfloor>r\<rfloor> else \<lceil>r\<rceil>)"

definition str_int :: "int \<Rightarrow> string" where
  "str_int i = (if i < 0 then ''-'' @ str_nat (nat (- i)) else str_nat (nat i))"

definition CPUPlugin_process_frame ::
  "env \<Rightarrow> plugin \<Rightarrow> cpu_state \<Rightarrow> frame \<Rightarrow> py_error + plugin \<times> frame" where
  "CPUPlugin_process_frame ev p c f =
     (if \<not> truthy (cpu_show c) then Inr (p, f)
      else case num_of (cpu_update_interval c) of
             None \<Rightarrow> Inl TypeError
           | Some interval \<Rightarrow>
               (let c' = (if time_now ev - cpu_last_check c > interval
                          then c\<lparr>cpu_usage := ''CPU: '' @ str_int (py_int (cpu_percent ev)) @ ''%'',
                                 cpu_last_check := time_now ev\<rparr>
                          else c)
                in Inr (p\<lparr>state := Cpu c'\<rparr>,
                        draw (CpuText (cpu_position c') (cpu_usage c') (cpu_font c')) f)))"

definition OverlayPlugin_process_frame ::
  "env \<Rightarrow> plugin \<Rightarrow> overlay_state \<Rightarrow> frame \<Rightarrow> py_error + plugin \<times> frame" where
  "OverlayPlugin_process_frame ev p c f =
     (if \<not> truthy (enabled p) \<or> overlay_image c = None then Inr (p, f)
      else case num_of (overlay_opacity c) of
             None \<Rightarrow> Inl TypeError
           | Some opacity \<Rightarrow>
               (if opacity < 1
                then Inr (p, draw (Paste (the (overlay_image c)) (overlay_position c) (Some opacity)) f)
                else Inr (p, draw (Paste (the (overlay_image c)) (overlay_position c) None) f)))"

definition CropPlugin_process_frame ::
  "env \<Rightarrow> plugin \<Rightarrow> crop_state \<Rightarrow> frame \<Rightarrow> py_error + plugin \<times> frame" where
  "CropPlugin_process_frame ev p c f = Inr (p, ImageOps_fit f (crop_target_size c))"

definition TLPPlugin_process_frame ::
  "env \<Rightarrow> plugin \<Rightarrow> tlp_state \<Rightarrow> frame \<Rightarrow> py_error + plugin \<times> frame" where
  "TLPPlugin_process_frame ev p c f =
     (if \<not> truthy (tlp_show c) then Inr (p, f)
      else Inr (p, draw (TlpBadge (tlp_position c) (tlp_level c) (tlp_padding c) (tlp_font c)) f))"

text \<open>\<^verbatim>\<open>plugin.process_frame(frame, draw)\<close>, dispatched on the object's class.\<close>

definition plugin_process_frame :: "env \<Rightarrow> plugin \<Rightarrow> frame \<Rightarrow> py_error + plugin \<times> frame" where
  "plugin_process_frame ev p f =
     (case state p of
        Clock c \<Rightarrow> ClockPlugin_process_frame ev p c f
      | Cpu c \<Rightarrow> CPUPlugin_process_frame ev p c f
      | Overlay c \<Rightarrow> OverlayPlugin_process_frame ev p c f
      | Crop c \<Rightarrow> CropPlugin_process_frame ev p c f
      | Tlp c \<Rightarrow> TLPPlugin_process_frame ev p c f)"

subsection \<open>\<^verbatim>\<open>PluginManager.process_frame\<close>\<close>

text \<open>The first loop: the first entry of \<^verbatim>\<open>self.plugins\<close> whose plugin is named \<^verbatim>\<open>crop\<close>.\<close>

fun find_crop :: "registry \<Rightarrow> (string \<times> plugin) option" where
  "find_crop [] = None"
| "find_crop ((nm, p) # rest) = (if name p = ''crop'' then Some (nm, p) else find_crop rest)"

text \<open>
  The second loop. Besides \<^verbatim>\<open>self.plugins\<close> afterwards and the frame or the exception,
  the result lists the keys of the plugins whose \<^verbatim>\<open>process_frame\<close> was called, in call
  order.
\<close>

fun apply_plugins ::
  "env \<Rightarrow> string option \<Rightarrow> registry \<Rightarrow> frame \<Rightarrow> string list \<times> registry \<times> (py_error + frame)" where
  "apply_plugins ev crop_plugin_name [] f = ([], [], Inr f)"
| "apply_plugins ev crop_plugin_name ((nm, p) # rest) f =
     (if Some nm = crop_plugin_name \<or> \<not> truthy (enabled p) then
        (case apply_plugins ev crop_plugin_name rest f of
           (calls, rest', r) \<Rightarrow> (calls, (nm, p) # rest', r))
      else
        (case plugin_process_frame ev p f of
           Inl e \<Rightarrow> ([nm], (nm, p) # rest, Inl e)
         | Inr (p', f') \<Rightarrow>
             (case apply_plugins ev crop_plugin_name rest f' of
                (calls, rest', r) \<Rightarrow> (nm # calls, (nm, p') # rest', r))))"

definition registry_set :: "registry \<Rightarrow> string \<Rightarrow> plugin \<Rightarrow> registry" where
  "registry_set plugins k p = map (\<lambda>(nm, q). if nm = k then (nm, p) else (nm, q)) plugins"

definition PluginManager_process_frame ::
  "env \<Rightarrow> registry \<Rightarrow> frame \<Rightarrow> string list \<times> registry \<times> (py_error + frame)" where
  "PluginManager_process_frame ev plugins f =
     (case find_crop plugins of
        None \<Rightarrow> apply_plugins ev None plugins f
      | Some (crop_plugin_name, crop_plugin) \<Rightarrow>
          (case plugin_process_frame ev crop_plugin f of
             Inl e \<Rightarrow> ([crop_plugin_name], plugins, Inl e)
           | Inr (crop_plugin', f') \<Rightarrow>
               (case apply_plugins ev (Some crop_plugin_name)
                       (registry_set plugins crop_plugin_name crop_plugin') f' of
                  (calls, plugins', r) \<Rightarrow> (crop_plugin_name # calls, plugins', r))))"

subsection \<open>The tail plugin\<close>

text \<open>
  The fields of \<^verbatim>\<open>TailPlugin\<close> that \<^verbatim>\<open>update\<close>, \<^verbatim>\<open>_read_file\<close> and the visibility
  test of \<^verbatim>\<open>process_frame\<close> use, with the types the constructor annotates.
\<close>

record tail_state =
  tail_file_path :: string
  tail_lines :: int
  tail_update_interval :: real
  tail_show :: bool
  tail_following :: bool
  tail_last_file_size :: int
  tail_last_mtime :: real
  tail_content :: "tail_line list"
  tail_last_update :: real

text \<open>The slices \<^verbatim>\<open>xs[-n:]\<close> and \<^verbatim>\<open>xs[:n]\<close> for any integer \<open>n\<close>.\<close>

definition slice_last :: "'a list \<Rightarrow> int \<Rightarrow> 'a list" where
  "slice_last xs n =
     (if - n < 0 then drop (nat (max 0 (int (length xs) - n))) xs else drop (nat (- n)) xs)"

definition slice_first :: "'a list \<Rightarrow> int \<Rightarrow> 'a list" where
  "slice_first xs n =
     (if n < 0 then take (nat (max 0 (int (length xs) + n))) xs else take (nat n) xs)"

text \<open>\<^verbatim>\<open>line.rstrip('\n\r')\<close>.\<close>

definition rstrip_newlines :: "string \<Rightarrow> string" where
  "rstrip_newlines s = rev (dropWhile (\<lambda>c. c = CHR 0x0A \<or> c = CHR 0x0D) (rev s))"

definition TailPlugin_read_file :: "env \<Rightarrow> tail_state \<Rightarrow> py_error + tail_state" where
  "TailPlugin_read_file ev t =
     (case path_exists ev (PStr (tail_file_path t)) of
        Inl e \<Rightarrow> Inl e
      | Inr False \<Rightarrow> Inr (t\<lparr>tail_content := [FileNotFoundLine (tail_file_path t)]\<rparr>)
      | Inr True \<Rightarrow>
          (case file_stat ev (tail_file_path t) of
             Inl e \<Rightarrow> Inr (t\<lparr>tail_content := [ReadErrorLine e]\<rparr>)
           | Inr (file_size, mtime) \<Rightarrow>
               (if file_size = tail_last_file_size t \<and> mtime = tail_last_mtime t then Inr t
                else
                  (let t1 = t\<lparr>tail_last_file_size := file_size, tail_last_mtime := mtime\<rparr>
                   in case read_lines ev (tail_file_path t) of
                        Inl e \<Rightarrow> Inr (t1\<lparr>tail_content := [ReadErrorLine e]\<rparr>)
                      | Inr all_lines \<Rightarrow>
                          (let content =
                                 (if tail_following t
                                  then (if int (length all_lines) > tail_lines t
                                        then slice_last all_lines (tail_lines t) else all_lines)
                                  else (if int (length all_lines) > tail_lines t
                                        then slice_first all_lines (tail_lines t) else all_lines))
                           in Inr (t1\<lparr>tail_content :=
                                        map (\<lambda>line. TextLine (rstrip_newlines line)) content\<rparr>))))))"

definition TailPlugin_update :: "env \<Rightarrow> tail_state \<Rightarrow> py_error + tail_state" where
  "TailPlugin_update ev t =
     (let current_time = time_now ev
      in if current_time - tail_last_update t \<ge> tail_update_interval t
         then (case TailPlugin_read_file ev t of
                 Inl e \<Rightarrow> Inl e
               | Inr t' \<Rightarrow> Inr (t'\<lparr>tail_last_update := current_time\<rparr>))
         else Inr t)"

definition TailPlugin_process_frame :: "tail_state \<Rightarrow> frame \<Rightarrow> frame" where
  "TailPlugin_process_frame t f = (if \<not> tail_show t then f else draw (TailBox (tail_content t)) f)"

subsection \<open>Predicates and sample inputs used in the statements\<close>

text \<open>An environment and a configuration on which the theorems below are instantiated.\<close>

definition sample_env :: env where
  "sample_env =
     \<lparr>path_exists = (\<lambda>v. Inr (v = PStr ''frame.png'' \<or> v = PStr ''app.log'')),
      image_open_rgba = (\<lambda>v. Inr \<lparr>img_source = v, img_size = (320, 240)\<rparr>),
      apply_resize = (\<lambda>ft rs sz img. Inr img),
      load_font = (\<lambda>nm cfg sz. Inr DefaultFont),
      time_now = 1000,
      cpu_percent = 12,
      local_utcoffset = - 10800,
      zoneinfo = (\<lambda>k. if k = ''Asia/Tokyo'' then Inr 32400 else Inl KeyError),
      file_stat = (\<lambda>p. Inr (8, 990)),
      read_lines = (\<lambda>p. Inr [''one'' @ [CHR 0x0A], ''two'' @ [CHR 0x0A]])\<rparr>"

definition sample_app :: app_config where
  "sample_app = \<lparr>width = 1280, height = 720, plugin_instances = [],
                  plugins_legacy = PDict [], extra_attrs = []\<rparr>"

definition sample_tlp :: tlp_state where
  "sample_tlp = \<lparr>tlp_level = TLP_RED, tlp_font = None, tlp_position = PTuple [PInt 20, PInt 20],
                  tlp_font_size = PInt 18, tlp_show = PBool True, tlp_padding = PInt 8\<rparr>"

definition sample_clock_utc :: clock_state where
  "sample_clock_utc =
     \<lparr>clock_format_str = PStr ''%H:%M:%S'', clock_font = Some DefaultFont,
      clock_position = PTuple [PInt 10, PInt 10], clock_font_size = PInt 35,
      clock_show = PBool True, clock_timezone = PStr ''UTC''\<rparr>"

definition sample_frame :: frame where
  "sample_frame = \<lparr>frame_size = (640, 480), frame_ops = []\<rparr>"

definition sample_crop_disabled :: plugin where
  "sample_crop_disabled =
     \<lparr>name = ''crop'', config = [], enabled = PBool False, shortcuts = PDict [],
      state = Crop \<lparr>crop_target_size = (1280, 720)\<rparr>\<rparr>"

definition sample_clock_hidden :: plugin where
  "sample_clock_hidden =
     \<lparr>name = ''clock'', config = [(''show'', PBool False)], enabled = PBool True, shortcuts = PDict [],
      state = Clock (sample_clock_utc\<lparr>clock_show := PBool False\<rparr>)\<rparr>"

definition sample_cpu_hidden :: plugin where
  "sample_cpu_hidden =
     \<lparr>name = ''cpu'', config = [(''show'', PBool False)], enabled = PBool True, shortcuts = PDict [],
      state = Cpu \<lparr>cpu_usage = ''CPU: 0%'', cpu_last_check = 0, cpu_update_interval = PFloat 2,
                   cpu_show = PBool False, cpu_font = Some DefaultFont,
                   cpu_position = PTuple [PInt 40, PInt 35], cpu_font_size = PInt 18\<rparr>\<rparr>"

definition sample_overlay_disabled :: plugin where
  "sample_overlay_disabled =
     \<lparr>name = ''overlay'', config = [(''enabled'', PBool False)], enabled = PBool False,
      shortcuts = PDict [],
      state = Overlay \<lparr>overlay_image = Some \<lparr>img_source = PStr ''frame.png'', img_size = (320, 240)\<rparr>,
                       overlay_file = PStr ''frame.png'', overlay_opacity = PFloat 1,
                       overlay_position = PTuple [PInt 0, PInt 0], overlay_fit = PBool False,
                       overlay_resize = PFloat 1\<rparr>\<rparr>"

definition sample_tlp_hidden :: plugin where
  "sample_tlp_hidden =
     \<lparr>name = ''tlp'', config = [(''show'', PBool False)], enabled = PBool True,
      shortcuts = PDict TLP_SHORTCUTS, state = Tlp (sample_tlp\<lparr>tlp_show := PBool False\<rparr>)\<rparr>"

definition sample_tail :: tail_state where
  "sample_tail =
     \<lparr>tail_file_path = ''app.log'', tail_lines = 10, tail_update_interval = 1 / 2,
      tail_show = False, tail_following = True, tail_last_file_size = 4, tail_last_mtime = 900,
      tail_content = [TextLine ''old''], tail_last_update = 1000\<rparr>"

definition sample_clock :: plugin where
  "sample_clock =
     \<lparr>name = ''clock'', config = [(''position'', PList [PInt 10, PInt 10]), (''format'', PStr ''%H:%M'')],
      enabled = PBool True, shortcuts = PDict [],
      state = Clock \<lparr>clock_format_str = PStr ''%H:%M'', clock_font = Some DefaultFont,
                     clock_position = PTuple [PInt 10, PInt 10], clock_font_size = PInt 35,
                     clock_show = PBool True, clock_timezone = PNone\<rparr>\<rparr>"

definition sample_overlay_missing :: plugin where
  "sample_overlay_missing =
     \<lparr>name = ''overlay'',
      config = [(''file'', PStr ''watermark.png''), (''opacity'', PFloat (1 / 2))],
      enabled = PBool True, shortcuts = PDict [],
      state = Overlay \<lparr>overlay_image = None, overlay_file = PStr ''watermark.png'',
                       overlay_opacity = PFloat (1 / 2), overlay_position = PTuple [PInt 0, PInt 0],
                       overlay_fit = PBool False, overlay_resize = PFloat 1\<rparr>\<rparr>"

definition sample_crop :: plugin where
  "sample_crop = sample_crop_disabled\<lparr>enabled := PBool True\<rparr>"

text \<open>
  A descriptor is type-valid when its type is a key of \<^verbatim>\<open>PLUGIN_CLASSES\<close>. It
  initialises in an environment when it is not type-valid, or its plugin is constructed
  and \<^verbatim>\<open>initialize\<close> raises nothing.
\<close>

definition type_valid :: "descriptor \<Rightarrow> bool" where
  "type_valid d = (map_of PLUGIN_CLASSES (d_type d) \<noteq> None)"

definition initializes :: "env \<Rightarrow> app_config \<Rightarrow> descriptor \<Rightarrow> bool" where
  "initializes ev app d =
     (case map_of PLUGIN_CLASSES (d_type d) of
        None \<Rightarrow> True
      | Some cls \<Rightarrow>
          (case new_plugin cls (PDict (d_config d)) of
             Inl e \<Rightarrow> False
           | Inr p0 \<Rightarrow>
               snd (snd (plugin_initialize ev app (p0\<lparr>enabled := PBool (d_enabled d)\<rparr>))) = None))"

definition sample_disabled_clock :: descriptor where
  "sample_disabled_clock = \<lparr>d_type = ''clock'', d_id = ''clock'', d_enabled = False, d_config = []\<rparr>"

definition sample_default_clock :: clock_state where
  "sample_default_clock =
     \<lparr>clock_format_str = PStr ''%H:%M:%S'', clock_font = Some DefaultFont,
      clock_position = PTuple [PInt 1080, PInt 20], clock_font_size = PInt 35,
      clock_show = PBool True, clock_timezone = PNone\<rparr>"

definition sample_descriptors :: "descriptor list" where
  "sample_descriptors =
     [\<lparr>d_type = ''clock'', d_id = ''clock'', d_enabled = True, d_config = []\<rparr>,
      \<lparr>d_type = ''tail'', d_id = ''log'', d_enabled = True, d_config = [(''file'', PStr ''app.log'')]\<rparr>,
      sample_disabled_clock,
      \<lparr>d_type = ''crop'', d_id = ''crop'', d_enabled = True, d_config = []\<rparr>]"

definition sample_legacy_app :: app_config where
  "sample_legacy_app =
     sample_app\<lparr>plugins_legacy :=
       PDict [(''config'', PDict [(''clock'', PDict [(''position'', PInt 5)])])]\<rparr>"

definition sample_default_cpu :: cpu_state where
  "sample_default_cpu =
     \<lparr>cpu_usage = ''CPU: 0%'', cpu_last_check = 0, cpu_update_interval = PFloat 2,
      cpu_show = PBool True, cpu_font = Some DefaultFont,
      cpu_position = PTuple [PInt 40, PInt 35], cpu_font_size = PInt 18\<rparr>"

definition sample_default_overlay :: overlay_state where
  "sample_default_overlay =
     \<lparr>overlay_image = None, overlay_file = PStr ''moldura.png'', overlay_opacity = PFloat 1,
      overlay_position = PTuple [PInt 0, PInt 0], overlay_fit = PBool False,
      overlay_resize = PFloat 1\<rparr>"

definition sample_clock_descriptor :: descriptor where
  "sample_clock_descriptor = \<lparr>d_type = ''clock'', d_id = ''clock'', d_enabled = True, d_config = []\<rparr>"

definition sample_failing_descriptor :: descriptor where
  "sample_failing_descriptor =
     \<lparr>d_type = ''clock'', d_id = ''c2'', d_enabled = True, d_config = [(''position'', PInt 5)]\<rparr>"

definition sample_crop_descriptor :: descriptor where
  "sample_crop_descriptor = \<lparr>d_type = ''crop'', d_id = ''crop'', d_enabled = True, d_config = []\<rparr>"

definition sample_tail_descriptor :: descriptor where
  "sample_tail_descriptor =
     \<lparr>d_type = ''tail'', d_id = ''log'', d_enabled = True, d_config = [(''file'', PStr ''app.log'')]\<rparr>"

section \<open>Properties\<close>

subsection \<open>The known-type registry\<close>

text \<open>
  C9. The manager's registry of known types has exactly the keys clock, cpu, overlay, crop
  and tlp. The class \<^verbatim>\<open>TailPlugin\<close> is exported by the plugins package but is not among
  the registry's classes, so a descriptor of type \<^verbatim>\<open>tail\<close> is skipped with the
  unknown-type warning and the loop goes on with the remaining descriptors; alone in the
  list, it leaves the registry as it was and \<^verbatim>\<open>initialize_plugins\<close> returns \<^verbatim>\<open>True\<close>.
\<close>

theorem C9_tail_is_unknown_type:
  "map fst PLUGIN_CLASSES = [''clock'', ''cpu'', ''overlay'', ''crop'', ''tlp'']
   \<and> ''TailPlugin'' \<in> set plugins_all
   \<and> ''TailPlugin'' \<notin> set (map (\<lambda>kc. class_name (snd kc)) PLUGIN_CLASSES)
   \<and> initialize_instances ev app (\<lparr>d_type = ''tail'', d_id = i, d_enabled = en, d_config = cfg\<rparr> # rest) plugins
       = (case initialize_instances ev app rest plugins of
            (lg, plugins', r) \<Rightarrow> (UnknownPluginType ''tail'' # lg, plugins', r))
   \<and> PluginManager_initialize_plugins ev
         (app\<lparr>plugin_instances := [\<lparr>d_type = ''tail'', d_id = i, d_enabled = en, d_config = cfg\<rparr>]\<rparr>)
         plugins
       = ([UnknownPluginType ''tail''], plugins, Inr True)"
  by (simp add: PLUGIN_CLASSES_def plugins_all_def PluginManager_initialize_plugins_def)

text \<open>C9 at a descriptor of type \<^verbatim>\<open>tail\<close> with a file option.\<close>

theorem C9_tail_is_unknown_type_example:
  "PluginManager_initialize_plugins sample_env
         (sample_app\<lparr>plugin_instances :=
            [\<lparr>d_type = ''tail'', d_id = ''tail'', d_enabled = True, d_config = [(''file'', PStr ''app.log'')]\<rparr>]\<rparr>)
         []
       = ([UnknownPluginType ''tail''], [], Inr True)"
  using C9_tail_is_unknown_type [of sample_env sample_app "''tail''" True "[(''file'', PStr ''app.log'')]" "[]" "[]"]
  by simp

subsection \<open>The classification badge\<close>

lemma validate_unrecognized:
  assumes "str_upper s \<notin> set [TLP_RED, TLP_AMBER, TLP_GREEN, TLP_CLEAR]"
  shows "TLPPlugin_validate_tlp_level (PStr s) = ([TlpLevelNotRecognized (PStr s)], TLP_CLEAR)"
  using assms by (simp add: TLPPlugin_validate_tlp_level_def)

text \<open>
  C8. For a level string whose upper-case form is none of RED, AMBER, GREEN and CLEAR:
  \<^verbatim>\<open>_validate_tlp_level\<close> prints the warning and returns CLEAR; after
  \<^verbatim>\<open>set_tlp_level\<close> the level is CLEAR and the warning was printed; and when the string
  is the configured \<^verbatim>\<open>default_tlp\<close>, \<^verbatim>\<open>initialize\<close> prints the warning and leaves
  the level at CLEAR. None of the three has an exception among its results for the level:
  \<^verbatim>\<open>_validate_tlp_level\<close> and \<^verbatim>\<open>set_tlp_level\<close> are total.
\<close>

theorem C8_unrecognized_level_falls_back_to_clear:
  assumes "str_upper s \<notin> set [TLP_RED, TLP_AMBER, TLP_GREEN, TLP_CLEAR]"
  shows "TLPPlugin_validate_tlp_level (PStr s) = ([TlpLevelNotRecognized (PStr s)], TLP_CLEAR)
       \<and> fst (TLPPlugin_set_tlp_level c (PStr s)) = [TlpLevelNotRecognized (PStr s)]
       \<and> tlp_level (fst (snd (TLPPlugin_set_tlp_level c (PStr s)))) = TLP_CLEAR
       \<and> (dict_get (config p) ''default_tlp'' (PStr TLP_CLEAR) = PStr s \<longrightarrow>
            fst (TLPPlugin_initialize ev app p c) = [TlpLevelNotRecognized (PStr s)]
            \<and> (\<exists>c'. state (fst (snd (TLPPlugin_initialize ev app p c))) = Tlp c'
                      \<and> tlp_level c' = TLP_CLEAR))"
proof -
  note v = validate_unrecognized [OF assms]
  have set_level: "fst (TLPPlugin_set_tlp_level c (PStr s)) = [TlpLevelNotRecognized (PStr s)]
       \<and> tlp_level (fst (snd (TLPPlugin_set_tlp_level c (PStr s)))) = TLP_CLEAR"
    by (simp add: TLPPlugin_set_tlp_level_def v)
  have init: "fst (TLPPlugin_initialize ev app p c) = [TlpLevelNotRecognized (PStr s)]
            \<and> (\<exists>c'. state (fst (snd (TLPPlugin_initialize ev app p c))) = Tlp c'
                      \<and> tlp_level c' = TLP_CLEAR)"
    if "dict_get (config p) ''default_tlp'' (PStr TLP_CLEAR) = PStr s"
    using that by (simp add: TLPPlugin_initialize_def v Let_def split: sum.splits)
  from v set_level init show ?thesis by blast
qed

lemma str_upper_purple: "str_upper ''purple'' = ''PURPLE''"
  by (simp add: str_upper_def upper_char_def)

text \<open>C8 at the string \<^verbatim>\<open>purple\<close>, on a badge whose level is RED.\<close>

theorem C8_unrecognized_level_example:
  "TLPPlugin_validate_tlp_level (PStr ''purple'') = ([TlpLevelNotRecognized (PStr ''purple'')], ''CLEAR'')
   \<and> TLPPlugin_set_tlp_level sample_tlp (PStr ''purple'')
       = ([TlpLevelNotRecognized (PStr ''purple'')], sample_tlp\<lparr>tlp_level := ''CLEAR''\<rparr>, True)"
proof -
  have u: "str_upper ''purple'' \<notin> set [TLP_RED, TLP_AMBER, TLP_GREEN, TLP_CLEAR]"
    by (simp add: str_upper_purple TLP_RED_def TLP_AMBER_def TLP_GREEN_def TLP_CLEAR_def)
  from C8_unrecognized_level_falls_back_to_clear [OF u, of sample_tlp]
  show ?thesis
    by (simp add: TLPPlugin_set_tlp_level_def TLP_CLEAR_def TLP_RED_def sample_tlp_def)
qed

subsection \<open>The clock's time zone\<close>

text \<open>
  C2 (the code departs from the claim). When the format string is a string without
  \<^verbatim>\<open>%z\<close> and \<^verbatim>\<open>%Z\<close> and the configured zone is any name other than \<^verbatim>\<open>local\<close>
  (in any letter case), \<^verbatim>\<open>_get_current_time\<close> returns the naive local time: the zone
  is not attached, the zone database is not consulted and nothing is printed, whether
  the name is a known zone or not.
\<close>

theorem C2_named_zone_ignored_without_zone_directive:
  assumes "clock_format_str c = PStr fmt"
      and "\<not> str_contains ''%z'' fmt" and "\<not> str_contains ''%Z'' fmt"
      and "clock_timezone c = PStr tzname" and "str_lower tzname \<noteq> ''local''"
  shows "ClockPlugin_get_current_time ev c = ([], Inr (datetime_now ev None))"
  using assms by (simp add: ClockPlugin_get_current_time_def)

text \<open>
  C2 at the zone \<^verbatim>\<open>UTC\<close> with the default format, where local time is three hours
  behind UTC: the time returned is the local one, with no zone.
\<close>

theorem C2_utc_default_format_example:
  "ClockPlugin_get_current_time sample_env sample_clock_utc
     = ([], Inr \<lparr>wall_clock = 1000 - 10800, dt_tzinfo = None\<rparr>)
   \<and> datetime_now sample_env (Some TzUTC) = \<lparr>wall_clock = 1000, dt_tzinfo = Some TzUTC\<rparr>"
proof -
  have l: "str_lower ''UTC'' \<noteq> ''local''"
    by (simp add: str_lower_def lower_char_def)
  from C2_named_zone_ignored_without_zone_directive [of sample_clock_utc "''%H:%M:%S''" "''UTC''" sample_env, OF _ _ _ _ l]
  show ?thesis
    by (simp add: sample_clock_utc_def datetime_now_def sample_env_def)
qed

subsection \<open>Hidden plugins\<close>

text \<open>
  C5 fails for the crop plugin: its \<^verbatim>\<open>process_frame\<close> has no visibility test. A crop
  plugin whose \<^verbatim>\<open>enabled\<close> flag is false, as the manager constructs it from a
  descriptor with \<^verbatim>\<open>enabled: false\<close>, returns a frame of the target size.
\<close>

theorem C5_disabled_crop_still_resizes:
  "new_plugin CropPlugin (PDict []) = Inr (sample_crop_disabled\<lparr>enabled := PBool True\<rparr>)
   \<and> plugin_initialize sample_env sample_app sample_crop_disabled = ([], sample_crop_disabled, None)
   \<and> \<not> truthy (enabled sample_crop_disabled)
   \<and> plugin_process_frame sample_env sample_crop_disabled sample_frame
       = Inr (sample_crop_disabled, \<lparr>frame_size = (1280, 720), frame_ops = [Fit (1280, 720)]\<rparr>)
   \<and> plugin_process_frame sample_env sample_crop_disabled sample_frame
       \<noteq> Inr (sample_crop_disabled, sample_frame)"
  by (simp add: sample_crop_disabled_def CropPlugin_new_def Plugin_init_def plugin_initialize_def
      CropPlugin_initialize_def sample_app_def plugin_process_frame_def CropPlugin_process_frame_def
      ImageOps_fit_def sample_frame_def)

text \<open>
  C5 as amended. A clock, CPU or badge plugin whose \<^verbatim>\<open>show\<close> flag is false, and an
  overlay plugin whose \<^verbatim>\<open>enabled\<close> flag is false, return the input frame and leave the
  plugin object as it was, whatever the environment holds; so does a tail plugin whose
  \<^verbatim>\<open>show\<close> flag is false.
\<close>

theorem C5_hidden_plugin_is_identity:
  "(state p1 = Clock c1 \<and> \<not> truthy (clock_show c1) \<longrightarrow> plugin_process_frame ev p1 f = Inr (p1, f))
   \<and> (state p2 = Cpu c2 \<and> \<not> truthy (cpu_show c2) \<longrightarrow> plugin_process_frame ev p2 f = Inr (p2, f))
   \<and> (state p3 = Overlay c3 \<and> \<not> truthy (enabled p3) \<longrightarrow> plugin_process_frame ev p3 f = Inr (p3, f))
   \<and> (state p4 = Tlp c4 \<and> \<not> truthy (tlp_show c4) \<longrightarrow> plugin_process_frame ev p4 f = Inr (p4, f))
   \<and> (\<not> tail_show t \<longrightarrow> TailPlugin_process_frame t f = f)"
  by (simp add: plugin_process_frame_def ClockPlugin_process_frame_def CPUPlugin_process_frame_def
      OverlayPlugin_process_frame_def TLPPlugin_process_frame_def TailPlugin_process_frame_def)

text \<open>C5 as amended, at one hidden plugin of each class.\<close>

theorem C5_hidden_plugin_example:
  "plugin_process_frame sample_env sample_clock_hidden sample_frame = Inr (sample_clock_hidden, sample_frame)
   \<and> plugin_process_frame sample_env sample_cpu_hidden sample_frame = Inr (sample_cpu_hidden, sample_frame)
   \<and> plugin_process_frame sample_env sample_overlay_disabled sample_frame
       = Inr (sample_overlay_disabled, sample_frame)
   \<and> plugin_process_frame sample_env sample_tlp_hidden sample_frame = Inr (sample_tlp_hidden, sample_frame)
   \<and> TailPlugin_process_frame sample_tail sample_frame = sample_frame"
  using C5_hidden_plugin_is_identity [of sample_clock_hidden "sample_clock_utc\<lparr>clock_show := PBool False\<rparr>"
      sample_env sample_frame
      sample_cpu_hidden "\<lparr>cpu_usage = ''CPU: 0%'', cpu_last_check = 0, cpu_update_interval = PFloat 2,
                   cpu_show = PBool False, cpu_font = Some DefaultFont,
                   cpu_position = PTuple [PInt 40, PInt 35], cpu_font_size = PInt 18\<rparr>"
      sample_overlay_disabled "\<lparr>overlay_image = Some \<lparr>img_source = PStr ''frame.png'', img_size = (320, 240)\<rparr>,
                       overlay_file = PStr ''frame.png'', overlay_opacity = PFloat 1,
                       overlay_position = PTuple [PInt 0, PInt 0], overlay_fit = PBool False,
                       overlay_resize = PFloat 1\<rparr>"
      sample_tlp_hidden "sample_tlp\<lparr>tlp_show := PBool False\<rparr>" sample_tail]
  by (simp add: sample_clock_hidden_def sample_cpu_hidden_def sample_overlay_disabled_def
      sample_tlp_hidden_def sample_tail_def)

subsection \<open>Plugins that change nothing\<close>

lemma find_crop_append:
  "find_crop (pre @ post) = (case find_crop pre of None \<Rightarrow> find_crop post | Some e \<Rightarrow> Some e)"
  by (induction pre) auto

lemma find_crop_remove:
  assumes "name q \<noteq> ''crop''"
  shows "find_crop (pre @ (k, q) # post) = find_crop (pre @ post)"
  using assms by (simp add: find_crop_append split: option.splits)

lemma apply_plugins_outcome_skip:
  "Some n = ck \<or> \<not> truthy (enabled p) \<Longrightarrow>
     snd (snd (apply_plugins ev ck ((n, p) # rest) f)) = snd (snd (apply_plugins ev ck rest f))"
  by (simp add: case_prod_beta)

lemma apply_plugins_outcome_call:
  "\<not> (Some n = ck \<or> \<not> truthy (enabled p)) \<Longrightarrow> plugin_process_frame ev p f = Inr (p', f') \<Longrightarrow>
     snd (snd (apply_plugins ev ck ((n, p) # rest) f)) = snd (snd (apply_plugins ev ck rest f'))"
  by (simp add: case_prod_beta)

lemma apply_plugins_outcome_raise:
  "\<not> (Some n = ck \<or> \<not> truthy (enabled p)) \<Longrightarrow> plugin_process_frame ev p f = Inl e \<Longrightarrow>
     snd (snd (apply_plugins ev ck ((n, p) # rest) f)) = Inl e"
  by simp

lemma process_frame_outcome:
  "snd (snd (PluginManager_process_frame ev plugins f)) =
     (case find_crop plugins of
        None \<Rightarrow> snd (snd (apply_plugins ev None plugins f))
      | Some (cn, cp) \<Rightarrow>
          (case plugin_process_frame ev cp f of
             Inl e \<Rightarrow> Inl e
           | Inr (cp', f') \<Rightarrow>
               snd (snd (apply_plugins ev (Some cn) (registry_set plugins cn cp') f'))))"
  by (simp add: PluginManager_process_frame_def case_prod_beta split: option.splits sum.splits)

text \<open>
  An entry of the registry changes nothing in a run of the second loop when the loop skips
  it (its key is the crop key, or its plugin is disabled) or when its \<^verbatim>\<open>process_frame\<close>
  returns every frame as it was.
\<close>

lemma apply_plugins_inert_head:
  assumes "Some k = ck \<or> \<not> truthy (enabled q)
           \<or> (\<forall>f. \<exists>p'. plugin_process_frame ev q f = Inr (p', f))"
  shows "snd (snd (apply_plugins ev ck ((k, q) # post) f)) = snd (snd (apply_plugins ev ck post f))"
proof (cases "Some k = ck \<or> \<not> truthy (enabled q)")
  case True
  then show ?thesis by (rule apply_plugins_outcome_skip)
next
  case False
  with assms obtain p' where "plugin_process_frame ev q f = Inr (p', f)"
    by auto
  with False show ?thesis by (rule apply_plugins_outcome_call)
qed

lemma apply_plugins_remove:
  assumes "Some k = ck \<or> \<not> truthy (enabled q)
           \<or> (\<forall>f. \<exists>p'. plugin_process_frame ev q f = Inr (p', f))"
  shows "snd (snd (apply_plugins ev ck (pre @ (k, q) # post) f))
       = snd (snd (apply_plugins ev ck (pre @ post) f))"
proof (induction pre arbitrary: f)
  case Nil
  show ?case using apply_plugins_inert_head [OF assms] by simp
next
  case (Cons e pre)
  obtain n p where e: "e = (n, p)" by (cases e)
  show ?case
  proof (cases "Some n = ck \<or> \<not> truthy (enabled p)")
    case True
    then show ?thesis
      using Cons.IH [of f] by (simp only: e append_Cons apply_plugins_outcome_skip)
  next
    case False
    show ?thesis
    proof (cases "plugin_process_frame ev p f")
      case (Inl err)
      with False have "\<And>rest. snd (snd (apply_plugins ev ck ((n, p) # rest) f)) = Inl err"
        by (rule apply_plugins_outcome_raise)
      then show ?thesis by (simp only: e append_Cons)
    next
      case (Inr r)
      obtain p' f' where r: "r = (p', f')" by (cases r)
      from False Inr [unfolded r]
      have call: "\<And>rest. snd (snd (apply_plugins ev ck ((n, p) # rest) f))
                         = snd (snd (apply_plugins ev ck rest f'))"
        by (rule apply_plugins_outcome_call)
      show ?thesis using Cons.IH [of f'] by (simp only: e append_Cons call)
    qed
  qed
qed

lemma registry_set_append:
  "registry_set (pre @ post) k p = registry_set pre k p @ registry_set post k p"
  by (simp add: registry_set_def)

lemma registry_set_Cons:
  "registry_set ((n, q) # post) k p = (n, if n = k then p else q) # registry_set post k p"
  by (simp add: registry_set_def)

lemma process_frame_remove:
  assumes nm: "name q \<noteq> ''crop''"
      and idle: "\<And>f. plugin_process_frame ev q f = Inr (q, f)"
  shows "snd (snd (PluginManager_process_frame ev (pre @ (k, q) # post) f))
       = snd (snd (PluginManager_process_frame ev (pre @ post) f))"
proof (cases "find_crop (pre @ post)")
  case None
  have "Some k = None \<or> \<not> truthy (enabled q)
        \<or> (\<forall>f. \<exists>p'. plugin_process_frame ev q f = Inr (p', f))"
    using idle by auto
  from apply_plugins_remove [OF this] None show ?thesis
    by (simp add: process_frame_outcome find_crop_remove [OF nm])
next
  case (Some e)
  obtain cn cp where e: "e = (cn, cp)" by (cases e)
  show ?thesis
  proof (cases "plugin_process_frame ev cp f")
    case (Inl err)
    with Some e show ?thesis
      by (simp add: process_frame_outcome find_crop_remove [OF nm])
  next
    case (Inr r)
    obtain cp' f' where r: "r = (cp', f')" by (cases r)
    have "Some k = Some cn \<or> \<not> truthy (enabled (if k = cn then cp' else q))
          \<or> (\<forall>f. \<exists>p'. plugin_process_frame ev (if k = cn then cp' else q) f = Inr (p', f))"
      using idle by auto
    then have "snd (snd (apply_plugins ev (Some cn) (registry_set (pre @ (k, q) # post) cn cp') f'))
             = snd (snd (apply_plugins ev (Some cn) (registry_set (pre @ post) cn cp') f'))"
      unfolding registry_set_append registry_set_Cons by (rule apply_plugins_remove)
    with Some e Inr r show ?thesis
      by (simp add: process_frame_outcome find_crop_remove [OF nm])
  qed
qed

lemma OverlayPlugin_new_dict:
  "OverlayPlugin_new (PDict cfg) = Inr p0 \<Longrightarrow>
     name p0 = ''overlay'' \<and> config p0 = cfg \<and> (\<exists>c0. state p0 = Overlay c0 \<and> overlay_image c0 = None)"
  by (auto simp: OverlayPlugin_new_def Plugin_init_def split: if_splits)

text \<open>
  C7. An overlay plugin is constructed from its options and initialised where
  \<^verbatim>\<open>os.path.exists\<close> is false for the configured file (or for the default file when
  none is configured). Then \<^verbatim>\<open>initialize\<close> prints the file-not-found warning and raises
  nothing; afterwards \<^verbatim>\<open>process_frame\<close> returns every frame unchanged and leaves the
  plugin as it was; and a registry with this plugin in it yields, for every frame, the
  same frame (or the same exception) from the manager's \<^verbatim>\<open>process_frame\<close> as the
  registry without it.
\<close>

theorem C7_missing_overlay_file_is_noop:
  assumes missing: "path_exists ev (dict_get cfg ''file'' (PStr ''moldura.png'')) = Inr False"
      and new: "OverlayPlugin_new (PDict cfg) = Inr p0"
      and init: "plugin_initialize ev app (p0\<lparr>enabled := en\<rparr>) = (lg, p, err)"
  shows "lg = [OverlayFileNotFound (dict_get cfg ''file'' (PStr ''moldura.png''))] \<and> err = None
       \<and> plugin_process_frame ev' p f = Inr (p, f)
       \<and> snd (snd (PluginManager_process_frame ev' (pre @ (k, p) # post) f))
         = snd (snd (PluginManager_process_frame ev' (pre @ post) f))"
proof -
  from OverlayPlugin_new_dict [OF new] obtain c0
    where p0: "name p0 = ''overlay''" "config p0 = cfg" "state p0 = Overlay c0" "overlay_image c0 = None"
    by blast
  from init p0 missing
  have res: "lg = [OverlayFileNotFound (dict_get cfg ''file'' (PStr ''moldura.png''))]" "err = None"
    and p: "name p = ''overlay''" "\<exists>c. state p = Overlay c \<and> overlay_image c = None"
    by (auto simp: plugin_initialize_def OverlayPlugin_initialize_def Let_def)
  from p have idle: "plugin_process_frame ev' p g = Inr (p, g)" for g
    by (auto simp: plugin_process_frame_def OverlayPlugin_process_frame_def)
  from p have "name p \<noteq> ''crop''" by simp
  from process_frame_remove [OF this idle] res idle show ?thesis by simp
qed

text \<open>
  C7 at the options \<^verbatim>\<open>file: watermark.png, opacity: 0.5\<close>, where the file does not
  exist: the pipeline of a clock and this overlay gives the frame of the clock alone.
\<close>

theorem C7_missing_overlay_file_example:
  "plugin_initialize sample_env sample_app
       (sample_overlay_missing\<lparr>state := Overlay \<lparr>overlay_image = None, overlay_file = PStr ''moldura.png'',
                       overlay_opacity = PFloat 1, overlay_position = PTuple [PInt 0, PInt 0],
                       overlay_fit = PBool False, overlay_resize = PFloat 1\<rparr>\<rparr>)
     = ([OverlayFileNotFound (PStr ''watermark.png'')], sample_overlay_missing, None)
   \<and> plugin_process_frame sample_env sample_overlay_missing sample_frame
     = Inr (sample_overlay_missing, sample_frame)
   \<and> snd (snd (PluginManager_process_frame sample_env
                  [(''clock'', sample_clock), (''overlay'', sample_overlay_missing)] sample_frame))
     = snd (snd (PluginManager_process_frame sample_env [(''clock'', sample_clock)] sample_frame))"
proof -
  let ?cfg = "[(''file'', PStr ''watermark.png''), (''opacity'', PFloat (1 / 2))]"
  let ?p0 = "sample_overlay_missing\<lparr>state := Overlay \<lparr>overlay_image = None, overlay_file = PStr ''moldura.png'',
                       overlay_opacity = PFloat 1, overlay_position = PTuple [PInt 0, PInt 0],
                       overlay_fit = PBool False, overlay_resize = PFloat 1\<rparr>\<rparr>"
  have missing: "path_exists sample_env (dict_get ?cfg ''file'' (PStr ''moldura.png'')) = Inr False"
    by (simp add: sample_env_def dict_get_def)
  have new: "OverlayPlugin_new (PDict ?cfg) = Inr ?p0"
    by (simp add: OverlayPlugin_new_def Plugin_init_def sample_overlay_missing_def dict_get_def)
  have init: "plugin_initialize sample_env sample_app (?p0\<lparr>enabled := PBool True\<rparr>)
                = ([OverlayFileNotFound (PStr ''watermark.png'')], sample_overlay_missing, None)"
    by (simp add: plugin_initialize_def OverlayPlugin_initialize_def sample_overlay_missing_def
        sample_env_def sample_app_def dict_get_def dict_has_def Let_def)
  have same: "?p0\<lparr>enabled := PBool True\<rparr> = ?p0"
    by (simp add: sample_overlay_missing_def)
  from C7_missing_overlay_file_is_noop [OF missing new init, of sample_env sample_frame
      "[(''clock'', sample_clock)]" "''overlay''" "[]"] init same
  show ?thesis by simp
qed

subsection \<open>The order of calls in \<^verbatim>\<open>PluginManager.process_frame\<close>\<close>

lemma find_crop_Some:
  "find_crop plugins = Some (k, cp) \<Longrightarrow> (k, cp) \<in> set plugins \<and> name cp = ''crop''"
  by (induction plugins) (auto split: if_splits)

lemma find_crop_exists:
  "(k0, p0) \<in> set plugins \<Longrightarrow> name p0 = ''crop'' \<Longrightarrow> \<exists>k cp. find_crop plugins = Some (k, cp)"
  by (induction plugins) auto

text \<open>
  The second loop calls, in registration order, the plugins that are enabled and whose
  key is not the crop key; it stops early only when a plugin raises.
\<close>

lemma apply_plugins_calls:
  "\<exists>later. map fst (filter (\<lambda>e. Some (fst e) \<noteq> ck \<and> truthy (enabled (snd e))) plugins)
            = fst (apply_plugins ev ck plugins f) @ later"
proof (induction plugins arbitrary: f)
  case Nil
  show ?case by simp
next
  case (Cons e plugins)
  obtain n p where e: "e = (n, p)" by (cases e)
  show ?case
  proof (cases "Some n = ck \<or> \<not> truthy (enabled p)")
    case True
    with Cons.IH [of f] show ?thesis by (auto simp: e case_prod_beta)
  next
    case False
    show ?thesis
    proof (cases "plugin_process_frame ev p f")
      case (Inl err)
      with False show ?thesis by (simp add: e)
    next
      case (Inr r)
      obtain p' f' where r: "r = (p', f')" by (cases r)
      with False Inr Cons.IH [of f'] show ?thesis by (auto simp: e case_prod_beta)
    qed
  qed
qed

lemma filter_registry_set:
  "filter (\<lambda>e. Some (fst e) \<noteq> Some k \<and> truthy (enabled (snd e))) (registry_set plugins k p)
   = filter (\<lambda>e. Some (fst e) \<noteq> Some k \<and> truthy (enabled (snd e))) plugins"
  by (induction plugins) (auto simp: registry_set_def split: if_splits)

lemma registry_set_absent:
  "k \<notin> fst ` set plugins \<Longrightarrow> registry_set plugins k p = plugins"
  by (induction plugins) (auto simp: registry_set_def)

lemma registry_set_same:
  "distinct (map fst plugins) \<Longrightarrow> (k, p) \<in> set plugins \<Longrightarrow> registry_set plugins k p = plugins"
proof (induction plugins)
  case Nil
  then show ?case by simp
next
  case (Cons e plugins)
  obtain n q where e: "e = (n, q)" by (cases e)
  show ?case
  proof (cases "n = k")
    case True
    with Cons.prems e have "q = p" and "k \<notin> fst ` set plugins" by force+
    then show ?thesis using True e by (simp add: registry_set_Cons registry_set_absent)
  next
    case False
    with Cons e show ?thesis by (auto simp: registry_set_Cons)
  qed
qed

lemma process_frame_calls:
  assumes "find_crop plugins = Some (k, cp)"
  shows "\<exists>rest later. fst (PluginManager_process_frame ev plugins f) = k # rest
           \<and> map fst (filter (\<lambda>e. fst e \<noteq> k \<and> truthy (enabled (snd e))) plugins) = rest @ later"
proof (cases "plugin_process_frame ev cp f")
  case (Inl err)
  with assms show ?thesis by (simp add: PluginManager_process_frame_def)
next
  case (Inr r)
  obtain cp' f' where r: "r = (cp', f')" by (cases r)
  from apply_plugins_calls [of "Some k" "registry_set plugins k cp'" ev f']
  obtain later where
    "map fst (filter (\<lambda>e. fst e \<noteq> k \<and> truthy (enabled (snd e))) plugins)
       = fst (apply_plugins ev (Some k) (registry_set plugins k cp') f') @ later"
    using filter_registry_set [of k plugins cp'] by auto
  with assms Inr r show ?thesis
    by (simp add: PluginManager_process_frame_def case_prod_beta)
qed

text \<open>
  C4. When a plugin named \<^verbatim>\<open>crop\<close> is registered, at any position of the registry,
  one call of the manager's \<^verbatim>\<open>process_frame\<close> calls the \<^verbatim>\<open>process_frame\<close> of the first
  such plugin first and never again: the sequence of calls is its key followed by keys
  different from it, and these are, in registration order, keys of enabled plugins (all of
  them unless a plugin raises). When no other registered plugin is named \<^verbatim>\<open>crop\<close>,
  none of the later calls goes to a plugin of that name.
\<close>

theorem C4_crop_applied_once_and_first:
  assumes "(k0, p0) \<in> set plugins" and "name p0 = ''crop''"
  shows "\<exists>k cp rest later. find_crop plugins = Some (k, cp) \<and> (k, cp) \<in> set plugins \<and> name cp = ''crop''
           \<and> fst (PluginManager_process_frame ev plugins f) = k # rest
           \<and> k \<notin> set rest
           \<and> count_list (fst (PluginManager_process_frame ev plugins f)) k = 1
           \<and> map fst (filter (\<lambda>e. fst e \<noteq> k \<and> truthy (enabled (snd e))) plugins) = rest @ later
           \<and> ((\<forall>n q. (n, q) \<in> set plugins \<and> name q = ''crop'' \<longrightarrow> n = k) \<longrightarrow>
                (\<forall>n q. n \<in> set rest \<and> (n, q) \<in> set plugins \<longrightarrow> name q \<noteq> ''crop''))"
proof -
  from find_crop_exists [OF assms] obtain k cp where fc: "find_crop plugins = Some (k, cp)"
    by blast
  from process_frame_calls [OF fc, of ev f] obtain rest later
    where calls: "fst (PluginManager_process_frame ev plugins f) = k # rest"
      and rest: "map fst (filter (\<lambda>e. fst e \<noteq> k \<and> truthy (enabled (snd e))) plugins) = rest @ later"
    by blast
  have "set rest \<subseteq> set (map fst (filter (\<lambda>e. fst e \<noteq> k \<and> truthy (enabled (snd e))) plugins))"
    by (simp add: rest)
  then have notin: "k \<notin> set rest" by auto
  then have once: "count_list (fst (PluginManager_process_frame ev plugins f)) k = 1"
    by (simp add: calls count_list_0_iff)
  have single: "\<forall>n q. n \<in> set rest \<and> (n, q) \<in> set plugins \<longrightarrow> name q \<noteq> ''crop''"
    if "\<forall>n q. (n, q) \<in> set plugins \<and> name q = ''crop'' \<longrightarrow> n = k"
    using that notin by blast
  from fc find_crop_Some [OF fc] calls rest notin once single show ?thesis by blast
qed

text \<open>C4 at a registry where the crop plugin was registered after a clock and a hidden CPU plugin.\<close>

theorem C4_crop_registered_last_example:
  "(\<exists>k cp rest later.
       find_crop [(''clock'', sample_clock), (''cpu'', sample_cpu_hidden), (''crop'', sample_crop)] = Some (k, cp)
       \<and> fst (PluginManager_process_frame sample_env
                 [(''clock'', sample_clock), (''cpu'', sample_cpu_hidden), (''crop'', sample_crop)]
                 sample_frame) = k # rest
       \<and> k \<notin> set rest)
   \<and> fst (PluginManager_process_frame sample_env
             [(''clock'', sample_clock), (''cpu'', sample_cpu_hidden), (''crop'', sample_crop)]
             sample_frame) = [''crop'', ''clock'', ''cpu'']"
proof -
  let ?reg = "[(''clock'', sample_clock), (''cpu'', sample_cpu_hidden), (''crop'', sample_crop)]"
  have m: "(''crop'', sample_crop) \<in> set ?reg" by simp
  have n: "name sample_crop = ''crop''" by (simp add: sample_crop_def sample_crop_disabled_def)
  have calls: "fst (PluginManager_process_frame sample_env ?reg sample_frame) = [''crop'', ''clock'', ''cpu'']"
    by (simp add: PluginManager_process_frame_def sample_clock_def sample_cpu_hidden_def
        sample_crop_def sample_crop_disabled_def plugin_process_frame_def
        CropPlugin_process_frame_def ClockPlugin_process_frame_def CPUPlugin_process_frame_def
        ClockPlugin_get_current_time_def registry_set_def)
  from C4_crop_applied_once_and_first [OF m n, of sample_env sample_frame] calls
  show ?thesis by blast
qed

text \<open>
  C10. The plugin found by name \<^verbatim>\<open>crop\<close> is applied to the frame although its
  \<^verbatim>\<open>enabled\<close> flag is false: the run is the crop key followed by the second loop on the
  fitted frame. The second loop never calls another plugin whose flag is false.
\<close>

theorem C10_disabled_crop_is_still_applied:
  assumes dist: "distinct (map fst plugins)"
      and fc: "find_crop plugins = Some (k, cp)"
      and st: "state cp = Crop c"
      and off: "\<not> truthy (enabled cp)"
  shows "PluginManager_process_frame ev plugins f =
           (case apply_plugins ev (Some k) plugins (ImageOps_fit f (crop_target_size c)) of
              (calls, plugins', r) \<Rightarrow> (k # calls, plugins', r))
       \<and> hd (fst (PluginManager_process_frame ev plugins f)) = k
       \<and> (\<forall>n q. (n, q) \<in> set plugins \<and> n \<noteq> k \<and> \<not> truthy (enabled q) \<longrightarrow>
                    n \<notin> set (fst (PluginManager_process_frame ev plugins f)))"
proof -
  from find_crop_Some [OF fc] have mem: "(k, cp) \<in> set plugins" by simp
  have crop: "plugin_process_frame ev cp f = Inr (cp, ImageOps_fit f (crop_target_size c))"
    by (simp add: plugin_process_frame_def st CropPlugin_process_frame_def)
  have eq: "PluginManager_process_frame ev plugins f =
           (case apply_plugins ev (Some k) plugins (ImageOps_fit f (crop_target_size c)) of
              (calls, plugins', r) \<Rightarrow> (k # calls, plugins', r))"
    by (simp add: PluginManager_process_frame_def fc crop registry_set_same [OF dist mem])
  from process_frame_calls [OF fc, of ev f] obtain rest later
    where calls: "fst (PluginManager_process_frame ev plugins f) = k # rest"
      and rest: "map fst (filter (\<lambda>e. fst e \<noteq> k \<and> truthy (enabled (snd e))) plugins) = rest @ later"
    by blast
  have skip: "n \<notin> set (fst (PluginManager_process_frame ev plugins f))"
    if "(n, q) \<in> set plugins" "n \<noteq> k" "\<not> truthy (enabled q)" for n q
  proof
    assume "n \<in> set (fst (PluginManager_process_frame ev plugins f))"
    with calls that have "n \<in> set rest" by simp
    then have "n \<in> set (map fst (filter (\<lambda>e. fst e \<noteq> k \<and> truthy (enabled (snd e))) plugins))"
      by (simp add: rest)
    then obtain q' where q': "(n, q') \<in> set plugins" "truthy (enabled q')" by auto
    from eq_key_imp_eq_value [OF dist q'(1) that(1)] q'(2) that(3) show False by simp
  qed
  have first: "hd (fst (PluginManager_process_frame ev plugins f)) = k"
    by (simp only: calls list.sel)
  from eq first skip show ?thesis by blast
qed

text \<open>C10 at a registry with a disabled crop plugin, a clock and a disabled badge.\<close>

theorem C10_disabled_crop_example:
  "PluginManager_process_frame sample_env
       [(''clock'', sample_clock), (''crop'', sample_crop_disabled),
        (''tlp'', sample_tlp_hidden\<lparr>enabled := PBool False\<rparr>)] sample_frame
     = ([''crop'', ''clock''],
        [(''clock'', sample_clock), (''crop'', sample_crop_disabled),
         (''tlp'', sample_tlp_hidden\<lparr>enabled := PBool False\<rparr>)],
        Inr \<lparr>frame_size = (1280, 720),
             frame_ops = [Fit (1280, 720),
                          ClockText (PTuple [PInt 10, PInt 10])
                            \<lparr>wall_clock = 1000 - 10800, dt_tzinfo = None\<rparr> (PStr ''%H:%M'')
                            (Some DefaultFont)]\<rparr>)"
proof -
  let ?reg = "[(''clock'', sample_clock), (''crop'', sample_crop_disabled),
               (''tlp'', sample_tlp_hidden\<lparr>enabled := PBool False\<rparr>)]"
  have dist: "distinct (map fst ?reg)" by simp
  have fc: "find_crop ?reg = Some (''crop'', sample_crop_disabled)"
    by (simp add: sample_clock_def sample_crop_disabled_def)
  have st: "state sample_crop_disabled = Crop \<lparr>crop_target_size = (1280, 720)\<rparr>"
    by (simp add: sample_crop_disabled_def)
  have off: "\<not> truthy (enabled sample_crop_disabled)"
    by (simp add: sample_crop_disabled_def)
  have loop: "apply_plugins sample_env (Some ''crop'') ?reg (ImageOps_fit sample_frame (1280, 720))
      = ([''clock''], ?reg,
        Inr \<lparr>frame_size = (1280, 720),
             frame_ops = [Fit (1280, 720),
                          ClockText (PTuple [PInt 10, PInt 10])
                            \<lparr>wall_clock = 1000 - 10800, dt_tzinfo = None\<rparr> (PStr ''%H:%M'')
                            (Some DefaultFont)]\<rparr>)"
    by (simp add: sample_clock_def sample_tlp_hidden_def plugin_process_frame_def
        ClockPlugin_process_frame_def ClockPlugin_get_current_time_def datetime_now_def
        sample_env_def draw_def ImageOps_fit_def sample_frame_def sample_crop_disabled_def)
  from C10_disabled_crop_is_still_applied [OF dist fc st off, of sample_env sample_frame] loop
  show ?thesis by simp
qed

subsection \<open>The tail plugin's refresh\<close>

lemma read_file_keeps:
  "TailPlugin_read_file ev t = Inr t' \<Longrightarrow>
     tail_file_path t' = tail_file_path t \<and> tail_lines t' = tail_lines t
     \<and> tail_update_interval t' = tail_update_interval t \<and> tail_following t' = tail_following t
     \<and> tail_show t' = tail_show t \<and> tail_last_update t' = tail_last_update t"
  by (auto simp: TailPlugin_read_file_def Let_def split: sum.splits bool.splits if_splits)

lemma read_file_records_stat:
  "TailPlugin_read_file ev t = Inr t' \<Longrightarrow> path_exists ev (PStr (tail_file_path t)) = Inr True \<Longrightarrow>
     file_stat ev (tail_file_path t) = Inr (sz, mt) \<Longrightarrow>
     tail_last_file_size t' = sz \<and> tail_last_mtime t' = mt"
  by (auto simp: TailPlugin_read_file_def Let_def split: sum.splits if_splits)

lemma update_throttled:
  "time_now ev - tail_last_update t < tail_update_interval t \<Longrightarrow> TailPlugin_update ev t = Inr t"
  by (simp add: TailPlugin_update_def Let_def)

lemma update_due:
  "time_now ev - tail_last_update t \<ge> tail_update_interval t \<Longrightarrow>
     TailPlugin_update ev t =
       (case TailPlugin_read_file ev t of
          Inl e \<Rightarrow> Inl e
        | Inr t' \<Rightarrow> Inr (t'\<lparr>tail_last_update := time_now ev\<rparr>))"
  by (simp add: TailPlugin_update_def Let_def)

lemma shown_lines:
  assumes "0 < n"
  shows "(if int (length ls) > n then slice_last ls n else ls) = drop (length ls - nat n) ls"
    and "(if int (length ls) > n then slice_first ls n else ls) = take (nat n) ls"
  using assms by (auto simp: slice_last_def slice_first_def max_def nat_diff_distrib')

lemma read_file_changed:
  assumes "path_exists ev (PStr (tail_file_path t)) = Inr True"
      and "file_stat ev (tail_file_path t) = Inr (sz, mt)"
      and "sz \<noteq> tail_last_file_size t \<or> mt \<noteq> tail_last_mtime t"
      and "read_lines ev (tail_file_path t) = Inr ls"
      and "0 < tail_lines t"
  shows "TailPlugin_read_file ev t =
           Inr (t\<lparr>tail_last_file_size := sz, tail_last_mtime := mt,
                  tail_content := map (\<lambda>line. TextLine (rstrip_newlines line))
                     (if tail_following t then drop (length ls - nat (tail_lines t)) ls
                      else take (nat (tail_lines t)) ls)\<rparr>)"
proof -
  note sl = shown_lines [OF assms(5), of ls]
  show ?thesis
  proof (cases "tail_following t")
    case True
    with assms(1-4) sl(1) show ?thesis
      by (auto simp: TailPlugin_read_file_def Let_def)
  next
    case False
    with assms(1-4) sl(2) show ?thesis
      by (auto simp: TailPlugin_read_file_def Let_def)
  qed
qed

text \<open>
  C6 fails as stated: two calls less than \<^verbatim>\<open>update_interval\<close> apart can change the
  cached lines. The interval is counted from the last refresh, not from the last call: the
  plugin was last refreshed at time 1000 with an interval of 0.5 s; the call at 1000.4 is
  throttled, the file changes, and the call at 1000.6, only 0.2 s later, reads the new lines.
\<close>

theorem C6_close_calls_can_refresh:
  "TailPlugin_update (sample_env\<lparr>time_now := 1000 + 2 / 5\<rparr>) sample_tail = Inr sample_tail
   \<and> ((1000 + 3 / 5) - (1000 + 2 / 5) :: real) < tail_update_interval sample_tail
   \<and> TailPlugin_update (sample_env\<lparr>time_now := 1000 + 3 / 5\<rparr>) sample_tail
       = Inr (sample_tail\<lparr>tail_last_file_size := 8, tail_last_mtime := 990,
                          tail_content := [TextLine ''one'', TextLine ''two''],
                          tail_last_update := 1000 + 3 / 5\<rparr>)
   \<and> tail_content sample_tail \<noteq> [TextLine ''one'', TextLine ''two'']"
  by (simp add: TailPlugin_update_def TailPlugin_read_file_def sample_tail_def sample_env_def
      Let_def rstrip_newlines_def)

text \<open>
  C6 as amended. Let a call of \<^verbatim>\<open>update\<close> at \<open>ev1\<close> be due (at least
  \<^verbatim>\<open>update_interval\<close> after the last refresh) and return \<open>t1\<close>. Then a call less than
  \<^verbatim>\<open>update_interval\<close> later leaves the object, and so the cached lines, unchanged whatever
  the file holds; and a call at least \<^verbatim>\<open>update_interval\<close> later, when the file exists,
  its size or modification time differs from the recorded ones and it can be read, sets
  the cached lines to the last \<^verbatim>\<open>lines\<close> lines of the file in follow mode and to the
  first \<^verbatim>\<open>lines\<close> lines otherwise, stripped of their line ends. The recorded size and
  time are those of the file at the first call, when it existed then.
\<close>

theorem C6_update_throttle_and_refresh:
  assumes first: "TailPlugin_update ev1 t0 = Inr t1"
      and due: "time_now ev1 - tail_last_update t0 \<ge> tail_update_interval t0"
      and pos: "0 < tail_lines t0"
  shows "(time_now ev2 - time_now ev1 < tail_update_interval t1 \<longrightarrow> TailPlugin_update ev2 t1 = Inr t1)
       \<and> (time_now ev3 - time_now ev1 \<ge> tail_update_interval t1
          \<and> path_exists ev3 (PStr (tail_file_path t1)) = Inr True
          \<and> file_stat ev3 (tail_file_path t1) = Inr (sz, mt)
          \<and> (sz \<noteq> tail_last_file_size t1 \<or> mt \<noteq> tail_last_mtime t1)
          \<and> read_lines ev3 (tail_file_path t1) = Inr ls
          \<longrightarrow> TailPlugin_update ev3 t1 =
                Inr (t1\<lparr>tail_last_file_size := sz, tail_last_mtime := mt,
                        tail_content := map (\<lambda>line. TextLine (rstrip_newlines line))
                           (if tail_following t1 then drop (length ls - nat (tail_lines t1)) ls
                            else take (nat (tail_lines t1)) ls),
                        tail_last_update := time_now ev3\<rparr>))
       \<and> (path_exists ev1 (PStr (tail_file_path t0)) = Inr True
          \<and> file_stat ev1 (tail_file_path t0) = Inr (sz1, mt1)
          \<longrightarrow> tail_last_file_size t1 = sz1 \<and> tail_last_mtime t1 = mt1)"
proof -
  from first due obtain t' where rf: "TailPlugin_read_file ev1 t0 = Inr t'"
    and t1: "t1 = t'\<lparr>tail_last_update := time_now ev1\<rparr>"
    by (auto simp: update_due split: sum.splits)
  note keep = read_file_keeps [OF rf]
  have last: "tail_last_update t1 = time_now ev1" by (simp add: t1)
  have a: "TailPlugin_update ev2 t1 = Inr t1"
    if "time_now ev2 - time_now ev1 < tail_update_interval t1"
    using that by (simp add: update_throttled last)
  have b: "TailPlugin_update ev3 t1 =
                Inr (t1\<lparr>tail_last_file_size := sz, tail_last_mtime := mt,
                        tail_content := map (\<lambda>line. TextLine (rstrip_newlines line))
                           (if tail_following t1 then drop (length ls - nat (tail_lines t1)) ls
                            else take (nat (tail_lines t1)) ls),
                        tail_last_update := time_now ev3\<rparr>)"
    if "time_now ev3 - time_now ev1 \<ge> tail_update_interval t1"
      and "path_exists ev3 (PStr (tail_file_path t1)) = Inr True"
      and "file_stat ev3 (tail_file_path t1) = Inr (sz, mt)"
      and "sz \<noteq> tail_last_file_size t1 \<or> mt \<noteq> tail_last_mtime t1"
      and "read_lines ev3 (tail_file_path t1) = Inr ls"
  proof -
    have "0 < tail_lines t1" using pos keep by (simp add: t1)
    from read_file_changed [OF that(2-5) this] that(1) show ?thesis
      by (simp add: update_due last)
  qed
  have c: "tail_last_file_size t1 = sz1 \<and> tail_last_mtime t1 = mt1"
    if "path_exists ev1 (PStr (tail_file_path t0)) = Inr True"
      and "file_stat ev1 (tail_file_path t0) = Inr (sz1, mt1)"
    using read_file_records_stat [OF rf that] by (simp add: t1)
  from a b c show ?thesis by blast
qed

text \<open>
  C6 as amended, at a plugin last refreshed at time 1000 with an interval of 0.5 s: the
  call at 1001 is due and finds the file as recorded; the file then changes; the call at
  1001.2 leaves the lines as they were and the call at 1002 shows the new lines.
\<close>

theorem C6_update_example:
  "TailPlugin_update (sample_env\<lparr>time_now := 1001, file_stat := (\<lambda>p. Inr (4, 900))\<rparr>) sample_tail
     = Inr (sample_tail\<lparr>tail_last_update := 1001\<rparr>)
   \<and> TailPlugin_update (sample_env\<lparr>time_now := 1001 + 1 / 5\<rparr>) (sample_tail\<lparr>tail_last_update := 1001\<rparr>)
     = Inr (sample_tail\<lparr>tail_last_update := 1001\<rparr>)
   \<and> TailPlugin_update (sample_env\<lparr>time_now := 1002\<rparr>) (sample_tail\<lparr>tail_last_update := 1001\<rparr>)
     = Inr (sample_tail\<lparr>tail_last_file_size := 8, tail_last_mtime := 990,
                        tail_content := [TextLine ''one'', TextLine ''two''],
                        tail_last_update := 1002\<rparr>)"
proof -
  let ?ev1 = "sample_env\<lparr>time_now := 1001, file_stat := (\<lambda>p. Inr (4, 900))\<rparr>"
  let ?t1 = "sample_tail\<lparr>tail_last_update := 1001\<rparr>"
  have first: "TailPlugin_update ?ev1 sample_tail = Inr ?t1"
    by (simp add: TailPlugin_update_def TailPlugin_read_file_def sample_tail_def sample_env_def Let_def)
  have due: "time_now ?ev1 - tail_last_update sample_tail \<ge> tail_update_interval sample_tail"
    by (simp add: sample_tail_def)
  have pos: "0 < tail_lines sample_tail" by (simp add: sample_tail_def)
  from C6_update_throttle_and_refresh [OF first due pos,
      of "sample_env\<lparr>time_now := 1001 + 1 / 5\<rparr>" "sample_env\<lparr>time_now := 1002\<rparr>" 8 990
         "[''one'' @ [CHR 0x0A], ''two'' @ [CHR 0x0A]]" 4 900] first
  show ?thesis
    by (simp add: sample_tail_def sample_env_def rstrip_newlines_def)
qed

subsection \<open>Registration\<close>

lemma unique_id_fresh: "unique_id keys original_id instance_id counter \<notin> set keys"
  by (induction keys original_id instance_id counter rule: unique_id.induct)
     (subst unique_id.simps, simp)

text \<open>
  The key chosen is the requested id when it is free, and otherwise the id with the
  lowest suffix, counted from 1, that is free.
\<close>

lemma unique_id_least_from:
  "unique_id keys original_id instance_id counter =
     (if instance_id \<notin> set keys then instance_id
      else suffixed original_id (LEAST n. counter \<le> n \<and> suffixed original_id n \<notin> set keys))"
proof (induction keys original_id instance_id counter rule: unique_id.induct)
  case (1 keys original_id instance_id counter)
  show ?case
  proof (cases "instance_id \<in> set keys")
    case False
    then show ?thesis by (subst unique_id.simps) simp
  next
    case True
    show ?thesis
    proof (cases "suffixed original_id counter \<in> set keys")
      case False
      have "(LEAST n. counter \<le> n \<and> suffixed original_id n \<notin> set keys) = counter"
        using False by (intro Least_equality) auto
      with True False 1 show ?thesis by (subst unique_id.simps) simp
    next
      case used: True
      have "(\<lambda>n. counter \<le> n \<and> suffixed original_id n \<notin> set keys)
            = (\<lambda>n. counter + 1 \<le> n \<and> suffixed original_id n \<notin> set keys)"
        using used by (auto simp: fun_eq_iff Suc_le_eq le_less)
      then have "(LEAST n. counter \<le> n \<and> suffixed original_id n \<notin> set keys)
            = (LEAST n. counter + 1 \<le> n \<and> suffixed original_id n \<notin> set keys)"
        by simp
      with True used 1 show ?thesis by (subst unique_id.simps) simp
    qed
  qed
qed

lemma register_plugin_appends:
  assumes "PluginManager_register_plugin plugins p i = (lg, plugins')"
  shows "\<exists>k. plugins' = plugins @ [(k, p)] \<and> k \<notin> set (map fst plugins)"
proof -
  define k where "k = unique_id (map fst plugins) (case i of None \<Rightarrow> name p | Some j \<Rightarrow> j)
                        (case i of None \<Rightarrow> name p | Some j \<Rightarrow> j) 1"
  have "k \<notin> set (map fst plugins)" unfolding k_def by (rule unique_id_fresh)
  moreover from assms have "plugins' = plugins @ [(k, p)]"
    by (simp add: PluginManager_register_plugin_def Let_def k_def)
  ultimately show ?thesis by blast
qed

lemma register_plugin_distinct:
  "PluginManager_register_plugin plugins p i = (lg, plugins') \<Longrightarrow>
     distinct (map fst plugins) \<Longrightarrow> distinct (map fst plugins')"
  by (drule register_plugin_appends) auto

subsection \<open>Construction and initialisation keep the name and the options\<close>

lemma Plugin_init_dict:
  "Plugin_init nm (PDict d) st = Inr p \<Longrightarrow> name p = nm \<and> config p = d \<and> state p = st"
  by (auto simp: Plugin_init_def split: if_splits)

lemma construct_dict:
  "map_of PLUGIN_CLASSES ty = Some cls \<Longrightarrow> new_plugin cls (PDict d) = Inr p \<Longrightarrow>
     name p = ty \<and> config p = d"
  by (cases cls)
     (auto simp: PLUGIN_CLASSES_def ClockPlugin_new_def CPUPlugin_new_def OverlayPlugin_new_def
        CropPlugin_new_def TLPPlugin_new_def split: if_splits sum.splits dest: Plugin_init_dict)

lemma construct_dict_total: "\<exists>p. new_plugin cls (PDict d) = Inr p"
  by (cases cls)
     (auto simp: ClockPlugin_new_def CPUPlugin_new_def OverlayPlugin_new_def
        CropPlugin_new_def TLPPlugin_new_def Plugin_init_def)

lemma ClockPlugin_initialize_keeps:
  "ClockPlugin_initialize ev app p c = (lg, p', err) \<Longrightarrow> name p' = name p \<and> config p' = config p"
  by (auto simp: ClockPlugin_initialize_def Let_def split: sum.splits)

lemma CPUPlugin_initialize_keeps:
  "CPUPlugin_initialize ev app p c = (lg, p', err) \<Longrightarrow> name p' = name p \<and> config p' = config p"
  by (auto simp: CPUPlugin_initialize_def Let_def split: sum.splits)

lemma OverlayPlugin_initialize_keeps:
  "OverlayPlugin_initialize ev app p c = (lg, p', err) \<Longrightarrow> name p' = name p \<and> config p' = config p"
  by (auto simp: OverlayPlugin_initialize_def Let_def split: sum.splits bool.splits)

lemma TLPPlugin_initialize_keeps:
  "TLPPlugin_initialize ev app p c = (lg, p', err) \<Longrightarrow> name p' = name p \<and> config p' = config p"
  by (auto simp: TLPPlugin_initialize_def Let_def split: sum.splits prod.splits)

lemma plugin_initialize_keeps:
  "plugin_initialize ev app p = (lg, p', err) \<Longrightarrow> name p' = name p \<and> config p' = config p"
  by (cases "state p")
     (auto simp: plugin_initialize_def CropPlugin_initialize_def
        dest: ClockPlugin_initialize_keeps CPUPlugin_initialize_keeps
              OverlayPlugin_initialize_keeps TLPPlugin_initialize_keeps)

subsection \<open>Start-up from descriptors\<close>

lemma initialize_instances_unknown:
  "map_of PLUGIN_CLASSES (d_type d) = None \<Longrightarrow>
     initialize_instances ev app (d # rest) plugins =
       (case initialize_instances ev app rest plugins of
          (lg, plugins', r) \<Rightarrow> (UnknownPluginType (d_type d) # lg, plugins', r))"
  by simp

lemma initialize_instances_fails:
  "map_of PLUGIN_CLASSES (d_type d) = Some cls \<Longrightarrow> new_plugin cls (PDict (d_config d)) = Inr p0 \<Longrightarrow>
   plugin_initialize ev app (p0\<lparr>enabled := PBool (d_enabled d)\<rparr>) = (lg1, p, Some e) \<Longrightarrow>
     initialize_instances ev app (d # rest) plugins =
       (lg1 @ [InitError (d_type d) (d_id d) e], plugins, Inr False)"
  by simp

lemma initialize_instances_registers:
  "map_of PLUGIN_CLASSES (d_type d) = Some cls \<Longrightarrow> new_plugin cls (PDict (d_config d)) = Inr p0 \<Longrightarrow>
   plugin_initialize ev app (p0\<lparr>enabled := PBool (d_enabled d)\<rparr>) = (lg1, p, None) \<Longrightarrow>
   PluginManager_register_plugin plugins p (Some (d_id d)) = (lg2, plugins2) \<Longrightarrow>
     initialize_instances ev app (d # rest) plugins =
       (case initialize_instances ev app rest plugins2 of
          (lg3, plugins3, r) \<Rightarrow> (lg1 @ lg2 @ lg3, plugins3, r))"
  by simp

lemma initialize_instances_append:
  "initialize_instances ev app (ds1 @ ds2) plugins =
     (case initialize_instances ev app ds1 plugins of
        (lg1, plugins1, r1) \<Rightarrow>
          if r1 = Inr True
          then (case initialize_instances ev app ds2 plugins1 of
                  (lg2, plugins2, r) \<Rightarrow> (lg1 @ lg2, plugins2, r))
          else (lg1, plugins1, r1))"
proof (induction ds1 arbitrary: plugins)
  case Nil
  show ?case by (simp add: case_prod_beta)
next
  case (Cons d ds1)
  show ?case
  proof (cases "map_of PLUGIN_CLASSES (d_type d)")
    case None
    show ?thesis
      by (simp only: append_Cons initialize_instances_unknown [OF None] Cons.IH)
         (simp add: case_prod_beta)
  next
    case (Some cls)
    from construct_dict_total obtain p0 where p0: "new_plugin cls (PDict (d_config d)) = Inr p0"
      by blast
    obtain lg1 p err where init: "plugin_initialize ev app (p0\<lparr>enabled := PBool (d_enabled d)\<rparr>) = (lg1, p, err)"
      by (cases "plugin_initialize ev app (p0\<lparr>enabled := PBool (d_enabled d)\<rparr>)")
    show ?thesis
    proof (cases err)
      case (Some e)
      show ?thesis
        by (simp only: append_Cons initialize_instances_fails [OF \<open>map_of PLUGIN_CLASSES (d_type d) = Some cls\<close> p0 init [unfolded Some]])
           simp
    next
      case None
      obtain lg2 plugins2 where reg: "PluginManager_register_plugin plugins p (Some (d_id d)) = (lg2, plugins2)"
        by (cases "PluginManager_register_plugin plugins p (Some (d_id d))")
      show ?thesis
        by (simp only: append_Cons initialize_instances_registers [OF \<open>map_of PLUGIN_CLASSES (d_type d) = Some cls\<close> p0 init [unfolded None] reg] Cons.IH)
           (simp add: case_prod_beta)
    qed
  qed
qed

lemma initialize_instances_distinct:
  "initialize_instances ev app ds plugins = (lg, plugins', r) \<Longrightarrow>
     distinct (map fst plugins) \<Longrightarrow> distinct (map fst plugins')"
proof (induction ds arbitrary: plugins lg plugins' r)
  case Nil
  then show ?case by simp
next
  case (Cons d ds)
  show ?case
  proof (cases "map_of PLUGIN_CLASSES (d_type d)")
    case None
    with Cons.prems(1) obtain lg' where "initialize_instances ev app ds plugins = (lg', plugins', r)"
      by (auto simp: initialize_instances_unknown split: prod.splits)
    from Cons.IH [OF this Cons.prems(2)] show ?thesis .
  next
    case (Some cls)
    from construct_dict_total obtain p0 where p0: "new_plugin cls (PDict (d_config d)) = Inr p0"
      by blast
    obtain lg1 p err where init: "plugin_initialize ev app (p0\<lparr>enabled := PBool (d_enabled d)\<rparr>) = (lg1, p, err)"
      by (cases "plugin_initialize ev app (p0\<lparr>enabled := PBool (d_enabled d)\<rparr>)")
    show ?thesis
    proof (cases err)
      case (Some e)
      from Cons.prems(1) initialize_instances_fails [OF \<open>map_of PLUGIN_CLASSES (d_type d) = Some cls\<close> p0 init [unfolded Some]]
      have "plugins' = plugins" by simp
      with Cons.prems(2) show ?thesis by simp
    next
      case None
      obtain lg2 plugins2 where reg: "PluginManager_register_plugin plugins p (Some (d_id d)) = (lg2, plugins2)"
        by (cases "PluginManager_register_plugin plugins p (Some (d_id d))")
      from Cons.prems(1) initialize_instances_registers [OF \<open>map_of PLUGIN_CLASSES (d_type d) = Some cls\<close> p0 init [unfolded None] reg]
      obtain lg3 where "initialize_instances ev app ds plugins2 = (lg3, plugins', r)"
        by (auto split: prod.splits)
      from Cons.IH [OF this register_plugin_distinct [OF reg Cons.prems(2)]] show ?thesis .
    qed
  qed
qed

lemma initialize_instances_registered:
  "initialize_instances ev app ds plugins = (lg, plugins', Inr True) \<Longrightarrow>
     \<exists>new. plugins' = plugins @ new
       \<and> map (\<lambda>e. name (snd e)) new = map d_type (filter type_valid ds)
       \<and> map (\<lambda>e. config (snd e)) new = map d_config (filter type_valid ds)"
proof (induction ds arbitrary: plugins lg plugins')
  case Nil
  then show ?case by simp
next
  case (Cons d ds)
  show ?case
  proof (cases "map_of PLUGIN_CLASSES (d_type d)")
    case None
    with Cons.prems obtain lg' where "initialize_instances ev app ds plugins = (lg', plugins', Inr True)"
      by (auto simp: initialize_instances_unknown split: prod.splits)
    from Cons.IH [OF this] None show ?thesis by (simp add: type_valid_def)
  next
    case (Some cls)
    from construct_dict_total obtain p0 where p0: "new_plugin cls (PDict (d_config d)) = Inr p0"
      by blast
    obtain lg1 p err where init: "plugin_initialize ev app (p0\<lparr>enabled := PBool (d_enabled d)\<rparr>) = (lg1, p, err)"
      by (cases "plugin_initialize ev app (p0\<lparr>enabled := PBool (d_enabled d)\<rparr>)")
    show ?thesis
    proof (cases err)
      case (Some e)
      from Cons.prems initialize_instances_fails [OF \<open>map_of PLUGIN_CLASSES (d_type d) = Some cls\<close> p0 init [unfolded Some]]
      show ?thesis by simp
    next
      case None
      obtain lg2 plugins2 where reg: "PluginManager_register_plugin plugins p (Some (d_id d)) = (lg2, plugins2)"
        by (cases "PluginManager_register_plugin plugins p (Some (d_id d))")
      from Cons.prems initialize_instances_registers [OF \<open>map_of PLUGIN_CLASSES (d_type d) = Some cls\<close> p0 init [unfolded None] reg]
      obtain lg3 where "initialize_instances ev app ds plugins2 = (lg3, plugins', Inr True)"
        by (auto split: prod.splits)
      from Cons.IH [OF this] obtain new where new: "plugins' = plugins2 @ new"
        "map (\<lambda>e. name (snd e)) new = map d_type (filter type_valid ds)"
        "map (\<lambda>e. config (snd e)) new = map d_config (filter type_valid ds)"
        by blast
      from register_plugin_appends [OF reg] obtain k where k: "plugins2 = plugins @ [(k, p)]"
        by blast
      from construct_dict [OF \<open>map_of PLUGIN_CLASSES (d_type d) = Some cls\<close> p0]
        plugin_initialize_keeps [OF init]
      have "name p = d_type d" "config p = d_config d" by simp_all
      with new k \<open>map_of PLUGIN_CLASSES (d_type d) = Some cls\<close>
      have "plugins' = plugins @ ((k, p) # new)
        \<and> map (\<lambda>e. name (snd e)) ((k, p) # new) = map d_type (filter type_valid (d # ds))
        \<and> map (\<lambda>e. config (snd e)) ((k, p) # new) = map d_config (filter type_valid (d # ds))"
        by (simp add: type_valid_def)
      then show ?thesis by blast
    qed
  qed
qed

lemma initialize_instances_succeeds:
  "list_all (initializes ev app) ds \<Longrightarrow>
     \<exists>lg plugins'. initialize_instances ev app ds plugins = (lg, plugins', Inr True)"
proof (induction ds arbitrary: plugins)
  case Nil
  show ?case by simp
next
  case (Cons d ds)
  from Cons.prems have d: "initializes ev app d" and ds: "list_all (initializes ev app) ds"
    by simp_all
  show ?case
  proof (cases "map_of PLUGIN_CLASSES (d_type d)")
    case None
    from Cons.IH [OF ds, of plugins] obtain lg plugins'
      where "initialize_instances ev app ds plugins = (lg, plugins', Inr True)" by blast
    then have "initialize_instances ev app (d # ds) plugins
                 = (UnknownPluginType (d_type d) # lg, plugins', Inr True)"
      by (simp only: initialize_instances_unknown [OF None] prod.case)
    then show ?thesis by blast
  next
    case (Some cls)
    from construct_dict_total obtain p0 where p0: "new_plugin cls (PDict (d_config d)) = Inr p0"
      by blast
    from d Some p0 obtain lg1 p
      where init: "plugin_initialize ev app (p0\<lparr>enabled := PBool (d_enabled d)\<rparr>) = (lg1, p, None)"
      by (cases "plugin_initialize ev app (p0\<lparr>enabled := PBool (d_enabled d)\<rparr>)")
         (auto simp: initializes_def)
    obtain lg2 plugins2 where reg: "PluginManager_register_plugin plugins p (Some (d_id d)) = (lg2, plugins2)"
      by (cases "PluginManager_register_plugin plugins p (Some (d_id d))")
    from Cons.IH [OF ds, of plugins2] obtain lg3 plugins'
      where "initialize_instances ev app ds plugins2 = (lg3, plugins', Inr True)" by blast
    then have "initialize_instances ev app (d # ds) plugins = (lg1 @ lg2 @ lg3, plugins', Inr True)"
      by (simp only: initialize_instances_registers [OF Some p0 init reg] prod.case)
    then show ?thesis by blast
  qed
qed

lemma initialize_plugins_instances:
  "plugin_instances app \<noteq> [] \<Longrightarrow>
     PluginManager_initialize_plugins ev app plugins
       = initialize_instances ev app (plugin_instances app) plugins"
  by (simp add: PluginManager_initialize_plugins_def)

lemma unique_id_free: "instance_id \<notin> set keys \<Longrightarrow> unique_id keys original_id instance_id counter = instance_id"
  by (subst unique_id.simps) simp

lemma unique_id_used:
  "instance_id \<in> set keys \<Longrightarrow>
     unique_id keys original_id instance_id counter
       = unique_id keys original_id (suffixed original_id counter) (counter + 1)"
  by (subst unique_id.simps) simp

lemma register_plugin_free:
  "i \<notin> set (map fst plugins) \<Longrightarrow>
     PluginManager_register_plugin plugins p (Some i) = ([PluginRegistered (name p) i], plugins @ [(i, p)])"
  by (simp add: PluginManager_register_plugin_def Let_def unique_id_free)

lemma register_plugin_used:
  "i \<in> set (map fst plugins) \<Longrightarrow> suffixed i 1 \<notin> set (map fst plugins) \<Longrightarrow>
     PluginManager_register_plugin plugins p (Some i)
       = ([PluginRegistered (name p) (suffixed i 1)], plugins @ [(suffixed i 1, p)])"
  by (simp add: PluginManager_register_plugin_def Let_def unique_id_used unique_id_free)

lemma register_plugin_by_name:
  "name p \<notin> set (map fst plugins) \<Longrightarrow>
     PluginManager_register_plugin plugins p None
       = ([PluginRegistered (name p) (name p)], plugins @ [(name p, p)])"
  by (simp add: PluginManager_register_plugin_def Let_def unique_id_free)

lemma sample_disabled_clock_new:
  "new_plugin ClockPlugin (PDict (d_config sample_disabled_clock))
     = Inr \<lparr>name = ''clock'', config = [], enabled = PBool True, shortcuts = PDict [],
            state = Clock (sample_default_clock\<lparr>clock_font := None\<rparr>)\<rparr>"
  by (simp add: sample_disabled_clock_def ClockPlugin_new_def Plugin_init_def sample_default_clock_def)

lemma sample_default_clock_initialize:
  "extra_attrs app = [] \<Longrightarrow>
   plugin_initialize sample_env app
       \<lparr>name = ''clock'', config = [], enabled = en, shortcuts = PDict [],
        state = Clock (sample_default_clock\<lparr>clock_font := None\<rparr>)\<rparr>
     = ([], \<lparr>name = ''clock'', config = [], enabled = en, shortcuts = PDict [],
             state = Clock sample_default_clock\<rparr>, None)"
  by (simp add: plugin_initialize_def ClockPlugin_initialize_def dict_get_def dict_has_def Let_def
      sample_env_def sample_default_clock_def)

text \<open>
  C1 fails as stated: a descriptor with \<^verbatim>\<open>enabled: false\<close> is registered. The manager
  constructs and initialises the plugin, sets its \<^verbatim>\<open>enabled\<close> flag to false and
  registers it; only \<^verbatim>\<open>process_frame\<close> skips it.
\<close>

theorem C1_disabled_descriptor_is_registered:
  "\<not> d_enabled sample_disabled_clock
   \<and> PluginManager_initialize_plugins sample_env
         (sample_app\<lparr>plugin_instances := [sample_disabled_clock]\<rparr>) []
     = ([PluginRegistered ''clock'' ''clock''],
        [(''clock'', \<lparr>name = ''clock'', config = [], enabled = PBool False, shortcuts = PDict [],
                       state = Clock sample_default_clock\<rparr>)],
        Inr True)"
proof -
  let ?app = "sample_app\<lparr>plugin_instances := [sample_disabled_clock]\<rparr>"
  have off: "\<not> d_enabled sample_disabled_clock" by (simp add: sample_disabled_clock_def)
  have cls: "map_of PLUGIN_CLASSES (d_type sample_disabled_clock) = Some ClockPlugin"
    by (simp add: PLUGIN_CLASSES_def sample_disabled_clock_def)
  have attrs: "extra_attrs ?app = []" by (simp add: sample_app_def)
  have init: "plugin_initialize sample_env ?app
       (\<lparr>name = ''clock'', config = [], enabled = PBool True, shortcuts = PDict [],
         state = Clock (sample_default_clock\<lparr>clock_font := None\<rparr>)\<rparr>\<lparr>enabled := PBool (d_enabled sample_disabled_clock)\<rparr>)
     = ([], \<lparr>name = ''clock'', config = [], enabled = PBool False, shortcuts = PDict [],
             state = Clock sample_default_clock\<rparr>, None)"
    using sample_default_clock_initialize [OF attrs, of "PBool False"]
    by (simp add: sample_disabled_clock_def)
  have reg: "PluginManager_register_plugin []
       \<lparr>name = ''clock'', config = [], enabled = PBool False, shortcuts = PDict [],
        state = Clock sample_default_clock\<rparr> (Some (d_id sample_disabled_clock))
     = ([PluginRegistered ''clock'' ''clock''],
        [(''clock'', \<lparr>name = ''clock'', config = [], enabled = PBool False, shortcuts = PDict [],
                       state = Clock sample_default_clock\<rparr>)])"
    by (simp add: register_plugin_free sample_disabled_clock_def)
  have "initialize_instances sample_env ?app [sample_disabled_clock] []
     = ([PluginRegistered ''clock'' ''clock''],
        [(''clock'', \<lparr>name = ''clock'', config = [], enabled = PBool False, shortcuts = PDict [],
                       state = Clock sample_default_clock\<rparr>)],
        Inr True)"
    by (simp only: initialize_instances_registers [OF cls sample_disabled_clock_new init reg]
        initialize_instances.simps(1) prod.case append_Nil append_Nil2)
  with off show ?thesis by (simp add: PluginManager_initialize_plugins_def)
qed

text \<open>
  C1 as amended. For a non-empty list of descriptors in which every type-valid
  descriptor initialises without raising, \<^verbatim>\<open>initialize_plugins\<close> on an empty registry
  returns \<^verbatim>\<open>True\<close> and registers exactly the type-valid descriptors, enabled or not, in
  the order of the list: the registered plugins have the descriptors' types as names and
  the descriptors' options, and their keys are pairwise different.
\<close>

theorem C1_registers_every_type_valid_descriptor:
  assumes ne: "plugin_instances app \<noteq> []"
      and ok: "list_all (initializes ev app) (plugin_instances app)"
  shows "\<exists>lg plugins. PluginManager_initialize_plugins ev app [] = (lg, plugins, Inr True)
          \<and> distinct (map fst plugins)
          \<and> map (\<lambda>e. name (snd e)) plugins = map d_type (filter type_valid (plugin_instances app))
          \<and> map (\<lambda>e. config (snd e)) plugins = map d_config (filter type_valid (plugin_instances app))"
proof -
  from initialize_instances_succeeds [OF ok, of "[]"] obtain lg plugins
    where run: "initialize_instances ev app (plugin_instances app) [] = (lg, plugins, Inr True)"
    by blast
  from initialize_instances_distinct [OF run] have "distinct (map fst plugins)" by simp
  moreover from initialize_instances_registered [OF run]
  have "map (\<lambda>e. name (snd e)) plugins = map d_type (filter type_valid (plugin_instances app))"
    and "map (\<lambda>e. config (snd e)) plugins = map d_config (filter type_valid (plugin_instances app))"
    by auto
  moreover from run ne have "PluginManager_initialize_plugins ev app [] = (lg, plugins, Inr True)"
    by (simp add: initialize_plugins_instances)
  ultimately show ?thesis by blast
qed

lemma suffixed_clock_1: "suffixed ''clock'' (Suc 0) = ''clock_1''"
  by (simp add: suffixed_def str_nat.simps digit_char_def)

lemma sample_crop_initialize:
  "width app = 1280 \<Longrightarrow> height app = 720 \<Longrightarrow>
   plugin_initialize sample_env app
       \<lparr>name = ''crop'', config = [], enabled = en, shortcuts = PDict [],
        state = Crop \<lparr>crop_target_size = (1280, 720)\<rparr>\<rparr>
     = ([], \<lparr>name = ''crop'', config = [], enabled = en, shortcuts = PDict [],
             state = Crop \<lparr>crop_target_size = (1280, 720)\<rparr>\<rparr>, None)"
  by (simp add: plugin_initialize_def CropPlugin_initialize_def)

lemma sample_new_plugins:
  "ClockPlugin_new (PDict []) =
     Inr \<lparr>name = ''clock'', config = [], enabled = PBool True, shortcuts = PDict [],
          state = Clock (sample_default_clock\<lparr>clock_font := None\<rparr>)\<rparr>"
  "CropPlugin_new (PDict []) =
     Inr \<lparr>name = ''crop'', config = [], enabled = PBool True, shortcuts = PDict [],
          state = Crop \<lparr>crop_target_size = (1280, 720)\<rparr>\<rparr>"
  by (simp_all add: ClockPlugin_new_def CropPlugin_new_def Plugin_init_def sample_default_clock_def)

lemma sample_classes:
  "map_of PLUGIN_CLASSES ''clock'' = Some ClockPlugin"
  "map_of PLUGIN_CLASSES ''crop'' = Some CropPlugin"
  "map_of PLUGIN_CLASSES ''tail'' = None"
  by (simp_all add: PLUGIN_CLASSES_def)

text \<open>
  C1 as amended, at a list with an enabled clock, a descriptor of unknown type, a disabled
  clock of the same id and a crop plugin: three plugins are registered, the second clock
  under the key \<^verbatim>\<open>clock_1\<close>.
\<close>

theorem C1_registers_example:
  "(\<exists>lg plugins.
       PluginManager_initialize_plugins sample_env (sample_app\<lparr>plugin_instances := sample_descriptors\<rparr>) []
         = (lg, plugins, Inr True)
       \<and> distinct (map fst plugins)
       \<and> map (\<lambda>e. name (snd e)) plugins = [''clock'', ''clock'', ''crop''])
   \<and> map fst (fst (snd (PluginManager_initialize_plugins sample_env
                          (sample_app\<lparr>plugin_instances := sample_descriptors\<rparr>) [])))
     = [''clock'', ''clock_1'', ''crop'']"
proof -
  let ?app = "sample_app\<lparr>plugin_instances := sample_descriptors\<rparr>"
  have attrs: "extra_attrs ?app = []" by (simp add: sample_app_def)
  note init = sample_default_clock_initialize sample_crop_initialize sample_app_def
  have ne: "plugin_instances ?app \<noteq> []" by (simp add: sample_descriptors_def)
  have ok: "list_all (initializes sample_env ?app) (plugin_instances ?app)"
    by (simp add: sample_descriptors_def sample_disabled_clock_def initializes_def sample_classes
        sample_new_plugins init)
  have valid: "map d_type (filter type_valid (plugin_instances ?app)) = [''clock'', ''clock'', ''crop'']"
    by (simp add: sample_descriptors_def sample_disabled_clock_def type_valid_def sample_classes)
  have keys: "map fst (fst (snd (PluginManager_initialize_plugins sample_env ?app [])))
                = [''clock'', ''clock_1'', ''crop'']"
    by (simp add: PluginManager_initialize_plugins_def sample_descriptors_def sample_disabled_clock_def
        sample_classes sample_new_plugins init register_plugin_free register_plugin_used
        suffixed_clock_1)
  from C1_registers_every_type_valid_descriptor [OF ne ok] valid keys
  show ?thesis by auto
qed

lemma sample_legacy_clock_initialize:
  "plugin_initialize sample_env app
       \<lparr>name = ''clock'', config = [(''position'', PInt 5)], enabled = en, shortcuts = PDict [],
        state = Clock (sample_default_clock\<lparr>clock_font := None\<rparr>)\<rparr>
     = ([], \<lparr>name = ''clock'', config = [(''position'', PInt 5)], enabled = en, shortcuts = PDict [],
             state = Clock (sample_default_clock\<lparr>clock_font := None\<rparr>)\<rparr>, Some TypeError)"
  by (simp add: plugin_initialize_def ClockPlugin_initialize_def dict_get_def dict_has_def Let_def
      sample_default_clock_def)

lemma sample_default_cpu_initialize:
  "extra_attrs app = [] \<Longrightarrow>
   plugin_initialize sample_env app
       \<lparr>name = ''cpu'', config = [], enabled = en, shortcuts = PDict [],
        state = Cpu (sample_default_cpu\<lparr>cpu_font := None\<rparr>)\<rparr>
     = ([], \<lparr>name = ''cpu'', config = [], enabled = en, shortcuts = PDict [],
             state = Cpu sample_default_cpu\<rparr>, None)"
  by (simp add: plugin_initialize_def CPUPlugin_initialize_def dict_get_def dict_has_def Let_def
      sample_env_def sample_default_cpu_def)

lemma sample_default_overlay_initialize:
  "extra_attrs app = [] \<Longrightarrow>
   plugin_initialize sample_env app
       \<lparr>name = ''overlay'', config = [], enabled = en, shortcuts = PDict [],
        state = Overlay sample_default_overlay\<rparr>
     = ([OverlayFileNotFound (PStr ''moldura.png'')],
        \<lparr>name = ''overlay'', config = [], enabled = PBool True, shortcuts = PDict [],
         state = Overlay sample_default_overlay\<rparr>, None)"
  by (simp add: plugin_initialize_def OverlayPlugin_initialize_def dict_get_def dict_has_def Let_def
      sample_env_def sample_default_overlay_def)

lemma sample_legacy_new:
  "ClockPlugin_new (PDict [(''position'', PInt 5)]) =
     Inr \<lparr>name = ''clock'', config = [(''position'', PInt 5)], enabled = PBool True, shortcuts = PDict [],
          state = Clock (sample_default_clock\<lparr>clock_font := None\<rparr>)\<rparr>"
  "CPUPlugin_new (PDict []) =
     Inr \<lparr>name = ''cpu'', config = [], enabled = PBool True, shortcuts = PDict [],
          state = Cpu (sample_default_cpu\<lparr>cpu_font := None\<rparr>)\<rparr>"
  "OverlayPlugin_new (PDict []) =
     Inr \<lparr>name = ''overlay'', config = [], enabled = PBool True, shortcuts = PDict [],
          state = Overlay sample_default_overlay\<rparr>"
  by (simp_all add: ClockPlugin_new_def CPUPlugin_new_def OverlayPlugin_new_def Plugin_init_def
      dict_get_def sample_default_clock_def sample_default_cpu_def sample_default_overlay_def)

text \<open>
  Legacy mode in general: the loop over the registered plugins keeps every key, leaves
  under it the object as \<^verbatim>\<open>initialize\<close> left it, and prints every exception raised.
  When the legacy options are dicts and the three constructors raise nothing, the three
  plugins are appended to the registry and nothing is raised.
\<close>

lemma initialize_registered_result:
  "snd (initialize_registered ev app plugins)
     = map (\<lambda>e. (fst e, fst (snd (plugin_initialize ev app (snd e))))) plugins"
  by (induction plugins) (auto simp: case_prod_beta)

lemma initialize_registered_logs:
  "(nm, p) \<in> set plugins \<Longrightarrow> snd (snd (plugin_initialize ev app p)) = Some e \<Longrightarrow>
     LegacyInitError nm e \<in> set (fst (initialize_registered ev app plugins))"
  by (induction plugins) (auto simp: case_prod_beta)

lemma initialize_legacy_plugins_result:
  assumes legacy: "plugins_legacy app = PDict pl"
      and cfg: "dict_get pl ''config'' (PDict []) = PDict pc"
      and clock: "ClockPlugin_new (dict_get pc ''clock'' (PDict [])) = Inr clock"
      and cpu: "CPUPlugin_new (dict_get pc ''cpu'' (PDict [])) = Inr cpu"
      and overlay: "OverlayPlugin_new
            (if truthy (dict_get pc ''frame'' (PDict [])) then dict_get pc ''frame'' (PDict [])
             else dict_get pc ''overlay'' (PDict [])) = Inr overlay"
  shows "\<exists>k1 k2 k3 lg0. PluginManager_initialize_legacy_plugins ev app plugins =
           (lg0 @ fst (initialize_registered ev app (plugins @ [(k1, clock), (k2, cpu), (k3, overlay)])),
            snd (initialize_registered ev app (plugins @ [(k1, clock), (k2, cpu), (k3, overlay)])),
            None)"
proof -
  obtain lg1 r1 where reg1: "PluginManager_register_plugin plugins clock None = (lg1, r1)"
    by (cases "PluginManager_register_plugin plugins clock None")
  from register_plugin_appends [OF reg1] obtain k1 where r1: "r1 = plugins @ [(k1, clock)]"
    by blast
  obtain lg2 r2 where reg2: "PluginManager_register_plugin r1 cpu None = (lg2, r2)"
    by (cases "PluginManager_register_plugin r1 cpu None")
  from register_plugin_appends [OF reg2] obtain k2 where r2: "r2 = r1 @ [(k2, cpu)]"
    by blast
  obtain lg3 r3 where reg3: "PluginManager_register_plugin r2 overlay None = (lg3, r3)"
    by (cases "PluginManager_register_plugin r2 overlay None")
  from register_plugin_appends [OF reg3] obtain k3 where r3: "r3 = r2 @ [(k3, overlay)]"
    by blast
  have all: "r3 = plugins @ [(k1, clock), (k2, cpu), (k3, overlay)]"
    by (simp add: r1 r2 r3)
  have "PluginManager_initialize_legacy_plugins ev app plugins =
          ((lg1 @ lg2 @ lg3) @ fst (initialize_registered ev app r3),
           snd (initialize_registered ev app r3), None)"
    using overlay
    by (simp add: PluginManager_initialize_legacy_plugins_def legacy cfg clock cpu reg1 reg2 reg3
        case_prod_beta del: initialize_registered.simps split: if_splits)
  then show ?thesis unfolding all by blast
qed

text \<open>
  C3 fails in legacy mode. With no descriptors, the legacy options give the clock a
  \<^verbatim>\<open>position\<close> that is not a sequence, so the clock's \<^verbatim>\<open>initialize\<close> raises
  \<^verbatim>\<open>TypeError\<close>. The exception is printed, the remaining plugins are initialised, all
  three stay registered and \<^verbatim>\<open>initialize_plugins\<close> returns \<^verbatim>\<open>True\<close>.
\<close>

theorem C3_legacy_failure_is_not_fatal:
  "plugin_instances sample_legacy_app = []
   \<and> PluginManager_initialize_plugins sample_env sample_legacy_app []
     = ([PluginRegistered ''clock'' ''clock'', PluginRegistered ''cpu'' ''cpu'',
         PluginRegistered ''overlay'' ''overlay'', LegacyInitError ''clock'' TypeError,
         OverlayFileNotFound (PStr ''moldura.png'')],
        [(''clock'', \<lparr>name = ''clock'', config = [(''position'', PInt 5)], enabled = PBool True,
                       shortcuts = PDict [],
                       state = Clock (sample_default_clock\<lparr>clock_font := None\<rparr>)\<rparr>),
         (''cpu'', \<lparr>name = ''cpu'', config = [], enabled = PBool True, shortcuts = PDict [],
                     state = Cpu sample_default_cpu\<rparr>),
         (''overlay'', \<lparr>name = ''overlay'', config = [], enabled = PBool True, shortcuts = PDict [],
                         state = Overlay sample_default_overlay\<rparr>)],
        Inr True)"
proof -
  have attrs: "extra_attrs sample_legacy_app = []"
    by (simp add: sample_legacy_app_def sample_app_def)
  have inst: "plugin_instances sample_legacy_app = []"
    by (simp add: sample_legacy_app_def sample_app_def)
  have legacy: "plugins_legacy sample_legacy_app
      = PDict [(''config'', PDict [(''clock'', PDict [(''position'', PInt 5)])])]"
    by (simp add: sample_legacy_app_def)
  have loop: "initialize_registered sample_env sample_legacy_app
        [(''clock'', \<lparr>name = ''clock'', config = [(''position'', PInt 5)], enabled = PBool True,
                       shortcuts = PDict [],
                       state = Clock (sample_default_clock\<lparr>clock_font := None\<rparr>)\<rparr>),
         (''cpu'', \<lparr>name = ''cpu'', config = [], enabled = PBool True, shortcuts = PDict [],
                     state = Cpu (sample_default_cpu\<lparr>cpu_font := None\<rparr>)\<rparr>),
         (''overlay'', \<lparr>name = ''overlay'', config = [], enabled = PBool True, shortcuts = PDict [],
                         state = Overlay sample_default_overlay\<rparr>)]
      = ([LegacyInitError ''clock'' TypeError, OverlayFileNotFound (PStr ''moldura.png'')],
        [(''clock'', \<lparr>name = ''clock'', config = [(''position'', PInt 5)], enabled = PBool True,
                       shortcuts = PDict [],
                       state = Clock (sample_default_clock\<lparr>clock_font := None\<rparr>)\<rparr>),
         (''cpu'', \<lparr>name = ''cpu'', config = [], enabled = PBool True, shortcuts = PDict [],
                     state = Cpu sample_default_cpu\<rparr>),
         (''overlay'', \<lparr>name = ''overlay'', config = [], enabled = PBool True, shortcuts = PDict [],
                         state = Overlay sample_default_overlay\<rparr>)])"
    by (simp add: sample_legacy_clock_initialize sample_default_cpu_initialize [OF attrs]
        sample_default_overlay_initialize [OF attrs])
  have "PluginManager_initialize_legacy_plugins sample_env sample_legacy_app []
     = ([PluginRegistered ''clock'' ''clock'', PluginRegistered ''cpu'' ''cpu'',
         PluginRegistered ''overlay'' ''overlay'', LegacyInitError ''clock'' TypeError,
         OverlayFileNotFound (PStr ''moldura.png'')],
        [(''clock'', \<lparr>name = ''clock'', config = [(''position'', PInt 5)], enabled = PBool True,
                       shortcuts = PDict [],
                       state = Clock (sample_default_clock\<lparr>clock_font := None\<rparr>)\<rparr>),
         (''cpu'', \<lparr>name = ''cpu'', config = [], enabled = PBool True, shortcuts = PDict [],
                     state = Cpu sample_default_cpu\<rparr>),
         (''overlay'', \<lparr>name = ''overlay'', config = [], enabled = PBool True, shortcuts = PDict [],
                         state = Overlay sample_default_overlay\<rparr>)],
        None)"
    by (simp add: PluginManager_initialize_legacy_plugins_def legacy dict_get_def sample_legacy_new
        register_plugin_by_name loop del: initialize_registered.simps)
  with inst show ?thesis by (simp add: PluginManager_initialize_plugins_def)
qed

text \<open>
  C3 as amended. Let the configuration hold descriptors, and let those before \<open>d\<close> be
  processed without failure. If the type of \<open>d\<close> is unknown, the warning is printed and
  start-up continues with the descriptors after \<open>d\<close>. If \<open>d\<close> is type-valid and its
  \<^verbatim>\<open>initialize\<close> raises, \<^verbatim>\<open>initialize_plugins\<close> prints the error and returns
  \<^verbatim>\<open>False\<close> at once: \<open>d\<close> is not registered and the descriptors after it are not
  processed. With no descriptors (legacy mode) \<^verbatim>\<open>initialize_plugins\<close> never returns
  \<^verbatim>\<open>False\<close>; and when the legacy options are dicts from which the clock, CPU and
  overlay plugins are constructed, it returns \<^verbatim>\<open>True\<close> whatever the plugins'
  \<^verbatim>\<open>initialize\<close> do: the three plugins are registered after those already there,
  every registered plugin is initialised and stays under its key as \<^verbatim>\<open>initialize\<close>
  left it, and every exception raised by an \<^verbatim>\<open>initialize\<close> is printed with the
  plugin's key.
\<close>

theorem C3_failed_initialize_aborts_unknown_type_continues:
  assumes inst: "plugin_instances app = pre @ d # rest"
      and pre: "initialize_instances ev app pre plugins = (lg0, plugins0, Inr True)"
  shows "(map_of PLUGIN_CLASSES (d_type d) = None \<longrightarrow>
            PluginManager_initialize_plugins ev app plugins =
              (case initialize_instances ev app rest plugins0 of
                 (lg, plugins', r) \<Rightarrow> (lg0 @ UnknownPluginType (d_type d) # lg, plugins', r)))
       \<and> (map_of PLUGIN_CLASSES (d_type d) = Some cls
           \<and> new_plugin cls (PDict (d_config d)) = Inr p0
           \<and> plugin_initialize ev app (p0\<lparr>enabled := PBool (d_enabled d)\<rparr>) = (lg1, p, Some e) \<longrightarrow>
            PluginManager_initialize_plugins ev app plugins =
              (lg0 @ lg1 @ [InitError (d_type d) (d_id d) e], plugins0, Inr False))
       \<and> (plugin_instances app' = [] \<longrightarrow>
            snd (snd (PluginManager_initialize_plugins ev' app' plugins')) \<noteq> Inr False)
       \<and> (plugin_instances app' = [] \<and> plugins_legacy app' = PDict pl
           \<and> dict_get pl ''config'' (PDict []) = PDict pc
           \<and> ClockPlugin_new (dict_get pc ''clock'' (PDict [])) = Inr clock
           \<and> CPUPlugin_new (dict_get pc ''cpu'' (PDict [])) = Inr cpu
           \<and> OverlayPlugin_new
                 (if truthy (dict_get pc ''frame'' (PDict [])) then dict_get pc ''frame'' (PDict [])
                  else dict_get pc ''overlay'' (PDict [])) = Inr overlay \<longrightarrow>
            (\<exists>k1 k2 k3 lg.
                PluginManager_initialize_plugins ev' app' plugins' =
                  (lg,
                   map (\<lambda>e. (fst e, fst (snd (plugin_initialize ev' app' (snd e)))))
                     (plugins' @ [(k1, clock), (k2, cpu), (k3, overlay)]),
                   Inr True)
                \<and> (\<forall>nm q err.
                      (nm, q) \<in> set (plugins' @ [(k1, clock), (k2, cpu), (k3, overlay)])
                      \<and> snd (snd (plugin_initialize ev' app' q)) = Some err \<longrightarrow>
                      LegacyInitError nm err \<in> set lg)))"
proof -
  from inst have run: "PluginManager_initialize_plugins ev app plugins =
      (case initialize_instances ev app (d # rest) plugins0 of
         (lg2, plugins2, r) \<Rightarrow> (lg0 @ lg2, plugins2, r))"
    by (simp add: initialize_plugins_instances initialize_instances_append pre del: initialize_instances.simps)
  have a: "PluginManager_initialize_plugins ev app plugins =
              (case initialize_instances ev app rest plugins0 of
                 (lg, plugins', r) \<Rightarrow> (lg0 @ UnknownPluginType (d_type d) # lg, plugins', r))"
    if "map_of PLUGIN_CLASSES (d_type d) = None"
    by (simp only: run initialize_instances_unknown [OF that]) (simp add: case_prod_beta)
  have b: "PluginManager_initialize_plugins ev app plugins =
              (lg0 @ lg1 @ [InitError (d_type d) (d_id d) e], plugins0, Inr False)"
    if "map_of PLUGIN_CLASSES (d_type d) = Some cls"
      and "new_plugin cls (PDict (d_config d)) = Inr p0"
      and "plugin_initialize ev app (p0\<lparr>enabled := PBool (d_enabled d)\<rparr>) = (lg1, p, Some e)"
    by (simp only: run initialize_instances_fails [OF that] prod.case)
  have c: "snd (snd (PluginManager_initialize_plugins ev' app' plugins')) \<noteq> Inr False"
    if "plugin_instances app' = []"
    using that by (simp add: PluginManager_initialize_plugins_def split: prod.splits option.splits)
  have d: "\<exists>k1 k2 k3 lg.
                PluginManager_initialize_plugins ev' app' plugins' =
                  (lg,
                   map (\<lambda>e. (fst e, fst (snd (plugin_initialize ev' app' (snd e)))))
                     (plugins' @ [(k1, clock), (k2, cpu), (k3, overlay)]),
                   Inr True)
                \<and> (\<forall>nm q err.
                      (nm, q) \<in> set (plugins' @ [(k1, clock), (k2, cpu), (k3, overlay)])
                      \<and> snd (snd (plugin_initialize ev' app' q)) = Some err \<longrightarrow>
                      LegacyInitError nm err \<in> set lg)"
    if none: "plugin_instances app' = []" and legacy: "plugins_legacy app' = PDict pl"
      and cfg: "dict_get pl ''config'' (PDict []) = PDict pc"
      and clock: "ClockPlugin_new (dict_get pc ''clock'' (PDict [])) = Inr clock"
      and cpu: "CPUPlugin_new (dict_get pc ''cpu'' (PDict [])) = Inr cpu"
      and overlay: "OverlayPlugin_new
                 (if truthy (dict_get pc ''frame'' (PDict [])) then dict_get pc ''frame'' (PDict [])
                  else dict_get pc ''overlay'' (PDict [])) = Inr overlay"
  proof -
    from initialize_legacy_plugins_result [OF legacy cfg clock cpu overlay, of ev' plugins']
    obtain k1 k2 k3 lg0 where run: "PluginManager_initialize_legacy_plugins ev' app' plugins' =
           (lg0 @ fst (initialize_registered ev' app' (plugins' @ [(k1, clock), (k2, cpu), (k3, overlay)])),
            snd (initialize_registered ev' app' (plugins' @ [(k1, clock), (k2, cpu), (k3, overlay)])),
            None)"
      by blast
    let ?reg = "plugins' @ [(k1, clock), (k2, cpu), (k3, overlay)]"
    let ?lg = "lg0 @ fst (initialize_registered ev' app' ?reg)"
    have res: "PluginManager_initialize_plugins ev' app' plugins' =
                 (?lg, map (\<lambda>e. (fst e, fst (snd (plugin_initialize ev' app' (snd e))))) ?reg, Inr True)"
      by (simp add: PluginManager_initialize_plugins_def none run initialize_registered_result
          del: initialize_registered.simps)
    have logged: "LegacyInitError nm err \<in> set ?lg"
      if "(nm, q) \<in> set ?reg" and "snd (snd (plugin_initialize ev' app' q)) = Some err" for nm q err
      using initialize_registered_logs [OF that] by simp
    from res logged show ?thesis by blast
  qed
  from a b c d show ?thesis by blast
qed

text \<open>
  C3 as amended, at two configurations: a clock, a clock whose \<^verbatim>\<open>position\<close> option is
  not a sequence, and a crop plugin (the second clock fails, the crop plugin is never
  reached, the result is \<^verbatim>\<open>False\<close>); and a descriptor of unknown type followed by a
  crop plugin (the crop plugin is registered, the result is \<^verbatim>\<open>True\<close>). And in
  legacy mode, at the options that give the clock a \<^verbatim>\<open>position\<close> that is not a
  sequence: the result is \<^verbatim>\<open>True\<close>, the three plugins are registered and the clock's
  \<^verbatim>\<open>TypeError\<close> is printed.
\<close>

theorem C3_failed_initialize_example:
  "PluginManager_initialize_plugins sample_env
       (sample_app\<lparr>plugin_instances :=
          [sample_clock_descriptor, sample_failing_descriptor, sample_crop_descriptor]\<rparr>) []
     = ([PluginRegistered ''clock'' ''clock'', InitError ''clock'' ''c2'' TypeError],
        [(''clock'', \<lparr>name = ''clock'', config = [], enabled = PBool True, shortcuts = PDict [],
                       state = Clock sample_default_clock\<rparr>)],
        Inr False)
   \<and> PluginManager_initialize_plugins sample_env
       (sample_app\<lparr>plugin_instances := [sample_tail_descriptor, sample_crop_descriptor]\<rparr>) []
     = ([UnknownPluginType ''tail'', PluginRegistered ''crop'' ''crop''],
        [(''crop'', \<lparr>name = ''crop'', config = [], enabled = PBool True, shortcuts = PDict [],
                      state = Crop \<lparr>crop_target_size = (1280, 720)\<rparr>\<rparr>)],
        Inr True)
   \<and> snd (snd (PluginManager_initialize_plugins sample_env sample_app [])) \<noteq> Inr False
   \<and> (\<exists>k1 k2 k3 lg.
         PluginManager_initialize_plugins sample_env sample_legacy_app [] =
           (lg,
            map (\<lambda>e. (fst e, fst (snd (plugin_initialize sample_env sample_legacy_app (snd e)))))
              [(k1, \<lparr>name = ''clock'', config = [(''position'', PInt 5)], enabled = PBool True,
                      shortcuts = PDict [],
                      state = Clock (sample_default_clock\<lparr>clock_font := None\<rparr>)\<rparr>),
               (k2, \<lparr>name = ''cpu'', config = [], enabled = PBool True, shortcuts = PDict [],
                      state = Cpu (sample_default_cpu\<lparr>cpu_font := None\<rparr>)\<rparr>),
               (k3, \<lparr>name = ''overlay'', config = [], enabled = PBool True, shortcuts = PDict [],
                      state = Overlay sample_default_overlay\<rparr>)],
            Inr True)
         \<and> LegacyInitError k1 TypeError \<in> set lg)"
proof -
  let ?appa = "sample_app\<lparr>plugin_instances :=
          [sample_clock_descriptor, sample_failing_descriptor, sample_crop_descriptor]\<rparr>"
  let ?appb = "sample_app\<lparr>plugin_instances := [sample_tail_descriptor, sample_crop_descriptor]\<rparr>"
  have insta: "plugin_instances ?appa = [sample_clock_descriptor] @ sample_failing_descriptor # [sample_crop_descriptor]"
    by simp
  have prea: "initialize_instances sample_env ?appa [sample_clock_descriptor] []
     = ([PluginRegistered ''clock'' ''clock''],
        [(''clock'', \<lparr>name = ''clock'', config = [], enabled = PBool True, shortcuts = PDict [],
                       state = Clock sample_default_clock\<rparr>)],
        Inr True)"
    by (simp add: sample_clock_descriptor_def sample_classes sample_new_plugins
        sample_default_clock_initialize sample_app_def register_plugin_free)
  have clsa: "map_of PLUGIN_CLASSES (d_type sample_failing_descriptor) = Some ClockPlugin"
    by (simp add: sample_failing_descriptor_def sample_classes)
  have newa: "new_plugin ClockPlugin (PDict (d_config sample_failing_descriptor))
     = Inr \<lparr>name = ''clock'', config = [(''position'', PInt 5)], enabled = PBool True, shortcuts = PDict [],
          state = Clock (sample_default_clock\<lparr>clock_font := None\<rparr>)\<rparr>"
    by (simp add: sample_failing_descriptor_def sample_legacy_new)
  have inita: "plugin_initialize sample_env ?appa
       (\<lparr>name = ''clock'', config = [(''position'', PInt 5)], enabled = PBool True, shortcuts = PDict [],
          state = Clock (sample_default_clock\<lparr>clock_font := None\<rparr>)\<rparr>\<lparr>enabled := PBool (d_enabled sample_failing_descriptor)\<rparr>)
     = ([], \<lparr>name = ''clock'', config = [(''position'', PInt 5)], enabled = PBool True, shortcuts = PDict [],
             state = Clock (sample_default_clock\<lparr>clock_font := None\<rparr>)\<rparr>, Some TypeError)"
    by (simp add: sample_failing_descriptor_def sample_legacy_clock_initialize)
  have instb: "plugin_instances ?appb = [] @ sample_tail_descriptor # [sample_crop_descriptor]"
    by simp
  have preb: "initialize_instances sample_env ?appb [] [] = ([], [], Inr True)" by simp
  have clsb: "map_of PLUGIN_CLASSES (d_type sample_tail_descriptor) = None"
    by (simp add: sample_tail_descriptor_def sample_classes)
  have restb: "initialize_instances sample_env ?appb [sample_crop_descriptor] []
     = ([PluginRegistered ''crop'' ''crop''],
        [(''crop'', \<lparr>name = ''crop'', config = [], enabled = PBool True, shortcuts = PDict [],
                      state = Crop \<lparr>crop_target_size = (1280, 720)\<rparr>\<rparr>)],
        Inr True)"
    by (simp add: sample_crop_descriptor_def sample_classes sample_new_plugins
        sample_crop_initialize sample_app_def register_plugin_free)
  have legacy: "plugin_instances sample_app = []" by (simp add: sample_app_def)
  let ?p0 = "\<lparr>name = ''clock'', config = [(''position'', PInt 5)], enabled = PBool True,
               shortcuts = PDict [], state = Clock (sample_default_clock\<lparr>clock_font := None\<rparr>)\<rparr>"
  note a = C3_failed_initialize_aborts_unknown_type_continues [OF insta prea,
      where cls = ClockPlugin and ?p0.0 = ?p0 and ?lg1.0 = "[]" and p = ?p0 and e = TypeError
        and app' = sample_app and ev' = sample_env and plugins' = "[]"]
  let ?lclock = "\<lparr>name = ''clock'', config = [(''position'', PInt 5)], enabled = PBool True,
                   shortcuts = PDict [],
                   state = Clock (sample_default_clock\<lparr>clock_font := None\<rparr>)\<rparr>"
  let ?lcpu = "\<lparr>name = ''cpu'', config = [], enabled = PBool True, shortcuts = PDict [],
                 state = Cpu (sample_default_cpu\<lparr>cpu_font := None\<rparr>)\<rparr>"
  let ?loverlay = "\<lparr>name = ''overlay'', config = [], enabled = PBool True, shortcuts = PDict [],
                     state = Overlay sample_default_overlay\<rparr>"
  note c = C3_failed_initialize_aborts_unknown_type_continues [OF insta prea,
      where cls = ClockPlugin and ?p0.0 = ?p0 and ?lg1.0 = "[]" and p = ?p0 and e = TypeError
        and app' = sample_legacy_app and ev' = sample_env and plugins' = "[]"
        and pl = "[(''config'', PDict [(''clock'', PDict [(''position'', PInt 5)])])]"
        and pc = "[(''clock'', PDict [(''position'', PInt 5)])]"
        and clock = ?lclock and cpu = ?lcpu and overlay = ?loverlay]
  have l1: "plugin_instances sample_legacy_app = []"
    by (simp add: sample_legacy_app_def sample_app_def)
  have l2: "plugins_legacy sample_legacy_app
              = PDict [(''config'', PDict [(''clock'', PDict [(''position'', PInt 5)])])]"
    by (simp add: sample_legacy_app_def)
  have l3: "dict_get [(''config'', PDict [(''clock'', PDict [(''position'', PInt 5)])])] ''config'' (PDict [])
              = PDict [(''clock'', PDict [(''position'', PInt 5)])]"
    by (simp add: dict_get_def)
  have l4: "ClockPlugin_new (dict_get [(''clock'', PDict [(''position'', PInt 5)])] ''clock'' (PDict []))
              = Inr ?lclock"
    by (simp add: dict_get_def sample_legacy_new)
  have l5: "CPUPlugin_new (dict_get [(''clock'', PDict [(''position'', PInt 5)])] ''cpu'' (PDict []))
              = Inr ?lcpu"
    by (simp add: dict_get_def sample_legacy_new)
  have l6: "OverlayPlugin_new
              (if truthy (dict_get [(''clock'', PDict [(''position'', PInt 5)])] ''frame'' (PDict []))
               then dict_get [(''clock'', PDict [(''position'', PInt 5)])] ''frame'' (PDict [])
               else dict_get [(''clock'', PDict [(''position'', PInt 5)])] ''overlay'' (PDict []))
              = Inr ?loverlay"
    by (simp add: dict_get_def sample_legacy_new)
  have l7: "snd (snd (plugin_initialize sample_env sample_legacy_app ?lclock)) = Some TypeError"
    by (simp add: sample_legacy_clock_initialize)
  from c l1 l2 l3 l4 l5 l6 obtain k1 k2 k3 lg where
    run: "PluginManager_initialize_plugins sample_env sample_legacy_app [] =
           (lg,
            map (\<lambda>e. (fst e, fst (snd (plugin_initialize sample_env sample_legacy_app (snd e)))))
              ([] @ [(k1, ?lclock), (k2, ?lcpu), (k3, ?loverlay)]),
            Inr True)"
    and logs: "\<forall>nm q err. (nm, q) \<in> set ([] @ [(k1, ?lclock), (k2, ?lcpu), (k3, ?loverlay)])
                 \<and> snd (snd (plugin_initialize sample_env sample_legacy_app q)) = Some err \<longrightarrow>
                 LegacyInitError nm err \<in> set lg"
    by blast
  have "(k1, ?lclock) \<in> set ([] @ [(k1, ?lclock), (k2, ?lcpu), (k3, ?loverlay)])" by simp
  with logs l7 have "LegacyInitError k1 TypeError \<in> set lg" by blast
  with run have 4: "\<exists>k1 k2 k3 lg.
         PluginManager_initialize_plugins sample_env sample_legacy_app [] =
           (lg,
            map (\<lambda>e. (fst e, fst (snd (plugin_initialize sample_env sample_legacy_app (snd e)))))
              [(k1, ?lclock), (k2, ?lcpu), (k3, ?loverlay)],
            Inr True)
         \<and> LegacyInitError k1 TypeError \<in> set lg"
    by (simp only: append_Nil) blast
  note b = C3_failed_initialize_aborts_unknown_type_continues [OF instb preb,
      where cls = ClockPlugin and ?p0.0 = ?p0 and ?lg1.0 = "[]" and p = ?p0 and e = TypeError
        and app' = sample_app and ev' = sample_env and plugins' = "[]"]
  from a clsa newa inita
  have "PluginManager_initialize_plugins sample_env ?appa []
     = ([PluginRegistered ''clock'' ''clock''] @ [] @
          [InitError (d_type sample_failing_descriptor) (d_id sample_failing_descriptor) TypeError],
        [(''clock'', \<lparr>name = ''clock'', config = [], enabled = PBool True, shortcuts = PDict [],
                       state = Clock sample_default_clock\<rparr>)],
        Inr False)"
    by blast
  then have 1: "PluginManager_initialize_plugins sample_env ?appa []
     = ([PluginRegistered ''clock'' ''clock'', InitError ''clock'' ''c2'' TypeError],
        [(''clock'', \<lparr>name = ''clock'', config = [], enabled = PBool True, shortcuts = PDict [],
                       state = Clock sample_default_clock\<rparr>)],
        Inr False)"
    by (simp add: sample_failing_descriptor_def)
  from a legacy
  have 3: "snd (snd (PluginManager_initialize_plugins sample_env sample_app [])) \<noteq> Inr False"
    by blast
  from b clsb
  have "PluginManager_initialize_plugins sample_env ?appb [] =
          (case initialize_instances sample_env ?appb [sample_crop_descriptor] [] of
             (lg, plugins', r) \<Rightarrow>
               ([] @ UnknownPluginType (d_type sample_tail_descriptor) # lg, plugins', r))"
    by blast
  then have 2: "PluginManager_initialize_plugins sample_env ?appb []
     = ([UnknownPluginType ''tail'', PluginRegistered ''crop'' ''crop''],
        [(''crop'', \<lparr>name = ''crop'', config = [], enabled = PBool True, shortcuts = PDict [],
                      state = Crop \<lparr>crop_target_size = (1280, 720)\<rparr>\<rparr>)],
        Inr True)"
    by (simp only: restb prod.case append_Nil) (simp add: sample_tail_descriptor_def)
  from 1 2 3 4 show ?thesis by blast
qed

end
